theory Spec2Isabelle
  imports Complex_Main "HOL-Library.Sublist"
begin

section \<open>JavaScript values as the hook sees them\<close>

text \<open>
  The hook of \<^verbatim>\<open>src/hooks/create-workspace-member.js\<close> reads values that were parsed
  from JSON by the Auth0 management client and by node-fetch, and it inspects them in three
  ways only: property reads, the truthiness test of \<^verbatim>\<open>if (!x)\<close>, and the string
  conversion of a template literal. The values are modelled with exactly these three
  observations. A number is its mathematical value (both zeros are \<open>Finite 0\<close>), or one of
  the three non-finite numbers.
\<close>

datatype jsnum = NaN | Infinity bool | Finite rat

datatype jsval =
    JUndefined
  | JNull
  | JBool bool
  | JNum jsnum
  | JStr string
  | JArr "jsval list"
  | JObj "(string \<times> jsval) list"

text \<open>What the code throws, and what a library throws or rejects with.\<close>

datatype error =
    Error string      \<comment> \<open>\<^verbatim>\<open>throw new Error(msg)\<close> in the hook's own code\<close>
  | TypeError         \<comment> \<open>raised by the runtime: property read or destructuring of null or undefined\<close>
  | LibraryError string
      \<comment> \<open>thrown or rejected by node-fetch or by the management client, with its message\<close>

text \<open>The truthiness test of \<^verbatim>\<open>if (!v)\<close>: ToBoolean.\<close>

fun truthy :: "jsval \<Rightarrow> bool" where
  "truthy JUndefined = False"
| "truthy JNull = False"
| "truthy (JBool b) = b"
| "truthy (JNum n) = (n \<noteq> NaN \<and> n \<noteq> Finite 0)"
| "truthy (JStr s) = (s \<noteq> [])"
| "truthy (JArr xs) = True"
| "truthy (JObj fs) = True"

text \<open>
  A property read \<^verbatim>\<open>v.k\<close>. On null and undefined it throws a TypeError. On an
  object it is the stored value, or undefined when the key is absent. The hook reads the
  four names \<^verbatim>\<open>app_metadata\<close>, \<^verbatim>\<open>isUserInvite\<close>, \<^verbatim>\<open>workspaceId\<close> and
  \<^verbatim>\<open>access_token\<close>, none of which is a property of a primitive's or an array's
  prototype, so the read is undefined there.
\<close>

definition nullish :: "jsval \<Rightarrow> bool" where
  "nullish v = (v = JUndefined \<or> v = JNull)"

fun prop_of :: "jsval \<Rightarrow> string \<Rightarrow> jsval" where
  "prop_of (JObj fs) k = (case map_of fs k of None \<Rightarrow> JUndefined | Some v \<Rightarrow> v)"
| "prop_of v k = JUndefined"

definition get_prop :: "jsval \<Rightarrow> string \<Rightarrow> error + jsval" where
  "get_prop v k = (if nullish v then Inl TypeError else Inr (prop_of v k))"

text \<open>
  The default of a destructuring pattern \<^verbatim>\<open>{ k = d }\<close>: it replaces undefined, and
  only undefined (null stays null).
\<close>

definition with_default :: "jsval \<Rightarrow> jsval \<Rightarrow> jsval" where
  "with_default v d = (if v = JUndefined then d else v)"

text \<open>
  The string conversion of a template literal \<^verbatim>\<open>`...${v}...`\<close>: ToString. The digits
  of a number are produced by the runtime's \<^verbatim>\<open>Number.prototype.toString\<close>, which is a
  parameter here. The conversion of an object asks for its \<^verbatim>\<open>toString\<close> and then its
  \<^verbatim>\<open>valueOf\<close>: a value parsed from JSON holds no function, so an object with an own key
  \<^verbatim>\<open>toString\<close> has nothing callable there, the inherited \<^verbatim>\<open>valueOf\<close> gives back the
  object, and the conversion throws a TypeError; without that key the inherited
  \<^verbatim>\<open>toString\<close> answers \<^verbatim>\<open>[object Object]\<close>. An array is joined with commas, its elements
  converted from left to right (null and undefined as the empty string), and the first
  element that throws ends the conversion.
\<close>

fun join :: "string \<Rightarrow> string list \<Rightarrow> string" where
  "join sep [] = []"
| "join sep [x] = x"
| "join sep (x # y # ys) = x @ sep @ join sep (y # ys)"

fun collect :: "(error + 'a) list \<Rightarrow> error + 'a list" where
  "collect [] = Inr []"
| "collect (Inl err # rs) = Inl err"
| "collect (Inr x # rs) = (case collect rs of Inl err \<Rightarrow> Inl err | Inr xs \<Rightarrow> Inr (x # xs))"

fun ToString :: "(jsnum \<Rightarrow> string) \<Rightarrow> jsval \<Rightarrow> error + string" where
  "ToString nts JUndefined = Inr ''undefined''"
| "ToString nts JNull = Inr ''null''"
| "ToString nts (JBool b) = Inr (if b then ''true'' else ''false'')"
| "ToString nts (JNum n) = Inr (nts n)"
| "ToString nts (JStr s) = Inr s"
| "ToString nts (JArr xs) =
     (case collect (map (\<lambda>x. if x = JUndefined \<or> x = JNull then Inr []
                                 else ToString nts x) xs) of
        Inl err \<Rightarrow> Inl err
      | Inr texts \<Rightarrow> Inr (join '','' texts))"
| "ToString nts (JObj fs) =
     (if map_of fs ''toString'' \<noteq> None then Inl TypeError else Inr ''[object Object]'')"


section \<open>The hook's inputs\<close>

text \<open>
  The JSDoc of the hook types the user's fields and the secrets as strings. The field
  \<^verbatim>\<open>id\<close> of the user is \<open>user_id\<close> here (\<open>id\<close> is HOL's identity function).
\<close>

record user =
  user_id :: string
  username :: string
  email :: string
  last_password_reset :: string

record secrets =
  AUTH0_DOMAIN :: string
  ACCOUNT_CLIENT_ID :: string
  ACCOUNT_CLIENT_SECRET :: string
  CREATE_WORKSPACE_MEMBER_CLIENT_ID :: string
  CREATE_WORKSPACE_MEMBER_CLIENT_SECRET :: string
  AUDIENCE :: string
  TOKEN_ENDPOINT :: string

record webtask =
  secrets :: secrets

record hook_context =
  webtask :: webtask


section \<open>The outside world: node-fetch and the Auth0 management client\<close>

text \<open>
  A request body is the text \<^verbatim>\<open>JSON.stringify(v)\<close>; the text is kept as the value it
  serialises.
\<close>

datatype json_text = JSON_stringify jsval

record options =
  "method" :: string
  headers :: "(string \<times> string) list"
  body :: json_text

text \<open>
  A response of node-fetch: its HTTP status and what \<^verbatim>\<open>res.json()\<close> resolves to or
  rejects with. \<^verbatim>\<open>res.ok\<close> is node-fetch's getter: the status is in the range 200-299.
\<close>

record response =
  status :: nat
  json :: "error + jsval"

definition ok :: "response \<Rightarrow> bool" where
  "ok res = (200 \<le> status res \<and> status res < 300)"

record client_options =
  domain :: string
  clientId :: string
  clientSecret :: string

text \<open>The outbound calls of one invocation, in the order they are made.\<close>

datatype call =
    GetUser string
  | Fetch string options
  | UpdateAppMetadata string jsval

text \<open>
  The host answers every outbound call. It has a state of its own (\<open>'w\<close>: the user store,
  the workspace API), which a call may change and on which later answers may depend.
  \<open>ManagementClient\<close> is the constructor of the SDK's client, which may throw on its
  options; \<open>getUser\<close> and \<open>updateAppMetadata\<close> are the two methods the hook calls, with
  the \<^verbatim>\<open>id\<close> of their first argument.
\<close>

record 'w host =
  ManagementClient :: "client_options \<Rightarrow> error option"
  getUser :: "string \<Rightarrow> 'w \<Rightarrow> (error + jsval) \<times> 'w"
  updateAppMetadata :: "string \<Rightarrow> jsval \<Rightarrow> 'w \<Rightarrow> error option \<times> 'w"
  fetch :: "string \<Rightarrow> options \<Rightarrow> 'w \<Rightarrow> (error + response) \<times> 'w"
  Number_toString :: "jsnum \<Rightarrow> string"

text \<open>
  What one invocation of the hook did: the outbound calls in order, the invocations of the
  completion callback \<^verbatim>\<open>cb\<close> in order (\<open>None\<close> is \<^verbatim>\<open>cb()\<close>, \<open>Some err\<close> is
  \<^verbatim>\<open>cb(err)\<close>), and the state the host is left in.
\<close>

record 'w result =
  calls :: "call list"
  cb_calls :: "error option list"
  world :: 'w


section \<open>The three functions of the hook\<close>

text \<open>
  \<^verbatim>\<open>_getToken(secrets)\<close>, here \<open>getToken\<close> (a name cannot begin with an underscore). The
  state threaded through is the trace of calls so far and the host's state. The function
  rejects when fetch rejects, when the response is not ok, when \<^verbatim>\<open>res.json()\<close> rejects
  and when the parsed body cannot be destructured.
\<close>

definition getToken ::
  "'w host \<Rightarrow> secrets \<Rightarrow> call list \<times> 'w \<Rightarrow> (error + jsval) \<times> call list \<times> 'w" where
  "getToken h secrets' s =
     (let options = \<lparr>method = ''POST'',
                     headers = [(''content-type'', ''application/json'')],
                     body = JSON_stringify (JObj
                       [(''client_id'', JStr (CREATE_WORKSPACE_MEMBER_CLIENT_ID secrets')),
                        (''client_secret'', JStr (CREATE_WORKSPACE_MEMBER_CLIENT_SECRET secrets')),
                        (''audience'', JStr (AUDIENCE secrets')),
                        (''grant_type'', JStr ''client_credentials'')])\<rparr>;
          (r, w') = fetch h (TOKEN_ENDPOINT secrets') options (snd s);
          s' = (fst s @ [Fetch (TOKEN_ENDPOINT secrets') options], w')
      in case r of
           Inl err \<Rightarrow> (Inl err, s')
         | Inr res \<Rightarrow>
             if \<not> ok res then (Inl (Error ''Failed to fetch token''), s')
             else (case json res of
                     Inl err \<Rightarrow> (Inl err, s')
                   | Inr parsed \<Rightarrow>
                       (case get_prop parsed ''access_token'' of
                          Inl err \<Rightarrow> (Inl err, s')
                        | Inr access_token \<Rightarrow> (Inr access_token, s'))))"

text \<open>
  \<^verbatim>\<open>_createMember(token, workspaceId, userId, email)\<close>, here \<open>createMember\<close>. The
  token and the workspace id are whatever the token response and the stored metadata hold;
  the template literals convert them to strings, the workspace id for the URL first, then
  the token for the header. A conversion that throws ends the function before any request
  is made.
\<close>

definition createMember ::
  "'w host \<Rightarrow> jsval \<Rightarrow> jsval \<Rightarrow> string \<Rightarrow> string \<Rightarrow> call list \<times> 'w
     \<Rightarrow> (error + jsval) \<times> call list \<times> 'w" where
  "createMember h token workspaceId userId email' s =
     (case ToString (Number_toString h) workspaceId of
        Inl err \<Rightarrow> (Inl err, s)
      | Inr workspaceText \<Rightarrow>
         (let url = ''https://api.upstand.fm/workspaces/'' @ workspaceText @ ''/members'' in
          (case ToString (Number_toString h) token of
             Inl err \<Rightarrow> (Inl err, s)
           | Inr tokenText \<Rightarrow>
              (let options = \<lparr>method = ''POST'',
                              headers = [(''content-type'', ''application/json''),
                                         (''Authorization'', ''Bearer '' @ tokenText)],
                              body = JSON_stringify (JObj
                                [(''userId'', JStr userId),
                                 (''email'', JStr email'),
                                 (''fullName'', JStr ''User'')])\<rparr>;
                   (r, w') = fetch h url options (snd s);
                   s' = (fst s @ [Fetch url options], w')
               in
               (case r of
                  Inl err \<Rightarrow> (Inl err, s')
                | Inr res \<Rightarrow>
                   (if \<not> ok res
                    then (Inl (Error ''Failed to create workspace member''), s')
                    else (case json res of
                            Inl err \<Rightarrow> (Inl err, s')
                          | Inr member \<Rightarrow> (Inr member, s'))))))))"

text \<open>
  The \<^verbatim>\<open>catch (err) { cb(err); }\<close> of the hook: the invocation ends with the calls made
  so far and one invocation of the callback, with the error.
\<close>

definition catch :: "error \<Rightarrow> call list \<times> 'w \<Rightarrow> 'w result" where
  "catch err s = \<lparr>calls = fst s, cb_calls = [Some err], world = snd s\<rparr>"

text \<open>
  \<^verbatim>\<open>createWorkspaceMember(user, context, cb)\<close>. The invocations of the callback are the
  \<open>cb_calls\<close> of the result; what the host does in the callback is not part of the hook,
  and the callback is taken to return (a callback that throws is not an input here).
  The \<^verbatim>\<open>return\<close> of the branch where the invite flag is not truthy leaves the function
  without an invocation of the callback. The arguments of \<^verbatim>\<open>_createMember\<close> are evaluated
  after the token has been awaited, so the read of \<^verbatim>\<open>app_metadata.workspaceId\<close> follows
  the token acquisition.
\<close>

definition createWorkspaceMember ::
  "'w host \<Rightarrow> user \<Rightarrow> hook_context \<Rightarrow> 'w \<Rightarrow> 'w result" where
  "createWorkspaceMember h user ctx w =
     (let secrets = secrets (webtask ctx) in
      (case ManagementClient h \<lparr>domain = AUTH0_DOMAIN secrets,
                                clientId = ACCOUNT_CLIENT_ID secrets,
                                clientSecret = ACCOUNT_CLIENT_SECRET secrets\<rparr> of
         Some err \<Rightarrow> catch err ([], w)
       | None \<Rightarrow>
          (let userId = ''auth0|'' @ user_id user;
               (r, w1) = getUser h userId w;
               s1 = ([GetUser userId], w1)
           in
           (case r of
              Inl err \<Rightarrow> catch err s1
            | Inr fetched \<Rightarrow>
               (case get_prop fetched ''app_metadata'' of
                  Inl err \<Rightarrow> catch err s1
                | Inr v \<Rightarrow>
                   (let app_metadata = with_default v (JObj []) in
                    (case get_prop app_metadata ''isUserInvite'' of
                       Inl err \<Rightarrow> catch err s1
                     | Inr isUserInvite \<Rightarrow>
                        (if \<not> truthy isUserInvite
                         then \<lparr>calls = fst s1, cb_calls = [], world = snd s1\<rparr>
                         else
                          (case getToken h secrets s1 of
                             (Inl err, s2) \<Rightarrow> catch err s2
                           | (Inr token, s2) \<Rightarrow>
                              (case get_prop app_metadata ''workspaceId'' of
                                 Inl err \<Rightarrow> catch err s2
                               | Inr workspaceId \<Rightarrow>
                                  (case createMember h token workspaceId userId
                                          (email user) s2 of
                                     (Inl err, s3) \<Rightarrow> catch err s3
                                   | (Inr member, s3) \<Rightarrow>
                                      (let newAppMetadata =
                                             JObj [(''isUserInvite'', JBool False),
                                                   (''inviteMsg'', JStr '''')];
                                           (u, w4) = updateAppMetadata h userId
                                                       newAppMetadata (snd s3);
                                           s4 = (fst s3 @ [UpdateAppMetadata userId
                                                             newAppMetadata], w4)
                                       in
                                       (case u of
                                          Some err \<Rightarrow> catch err s4
                                        | None \<Rightarrow>
                                           \<lparr>calls = fst s4, cb_calls = [None],
                                            world = snd s4\<rparr>)))))))))))))"


section \<open>Names for the requests of the hook\<close>

text \<open>
  The arguments the hook gives to its outbound calls, written once for the statements
  below. They are abbreviations: each one stands for the term on its right.
\<close>

abbreviation management_options :: "secrets \<Rightarrow> client_options" where
  "management_options sc \<equiv>
     \<lparr>domain = AUTH0_DOMAIN sc, clientId = ACCOUNT_CLIENT_ID sc,
      clientSecret = ACCOUNT_CLIENT_SECRET sc\<rparr>"

abbreviation token_options :: "secrets \<Rightarrow> options" where
  "token_options sc \<equiv>
     \<lparr>method = ''POST'',
      headers = [(''content-type'', ''application/json'')],
      body = JSON_stringify (JObj
        [(''client_id'', JStr (CREATE_WORKSPACE_MEMBER_CLIENT_ID sc)),
         (''client_secret'', JStr (CREATE_WORKSPACE_MEMBER_CLIENT_SECRET sc)),
         (''audience'', JStr (AUDIENCE sc)),
         (''grant_type'', JStr ''client_credentials'')])\<rparr>"

abbreviation member_url :: "string \<Rightarrow> string" where
  "member_url workspaceText \<equiv>
     ''https://api.upstand.fm/workspaces/'' @ workspaceText @ ''/members''"

abbreviation member_options :: "string \<Rightarrow> string \<Rightarrow> string \<Rightarrow> options" where
  "member_options tokenText userId mail \<equiv>
     \<lparr>method = ''POST'',
      headers = [(''content-type'', ''application/json''),
                 (''Authorization'', ''Bearer '' @ tokenText)],
      body = JSON_stringify (JObj
        [(''userId'', JStr userId), (''email'', JStr mail), (''fullName'', JStr ''User'')])\<rparr>"

abbreviation cleared_metadata :: jsval where
  "cleared_metadata \<equiv> JObj [(''isUserInvite'', JBool False), (''inviteMsg'', JStr '''')]"

abbreviation app_metadata_of :: "jsval \<Rightarrow> jsval" where
  "app_metadata_of fetched \<equiv>
     with_default (prop_of fetched ''app_metadata'') (JObj [])"


section \<open>A host to run the hook on\<close>

text \<open>
  A small host for concrete runs. Its state is the stored app metadata of the one user
  (undefined: the user record has no \<^verbatim>\<open>app_metadata\<close> field). The token endpoint and
  the member endpoint answer with the two given HTTP statuses. A metadata update merges the
  first-level properties into the stored object, as the management API does.
\<close>

fun merge_metadata :: "jsval \<Rightarrow> jsval \<Rightarrow> jsval" where
  "merge_metadata (JObj old) (JObj new) =
     JObj (new @ filter (\<lambda>(k, v). k \<notin> set (map fst new)) old)"
| "merge_metadata old new = new"

definition test_host :: "nat \<Rightarrow> nat \<Rightarrow> jsval host" where
  "test_host token_status member_status =
     \<lparr>ManagementClient = (\<lambda>opts. None),
      getUser = (\<lambda>i w.
        (Inr (JObj ((''user_id'', JStr i) #
                    (if w = JUndefined then [] else [(''app_metadata'', w)]))), w)),
      updateAppMetadata = (\<lambda>i new w. (None, merge_metadata w new)),
      fetch = (\<lambda>url opts w.
        if url = ''https://upstandfm.eu.auth0.com/oauth/token''
        then (Inr \<lparr>status = token_status,
                   json = Inr (JObj [(''access_token'', JStr ''t0k3n''),
                                     (''token_type'', JStr ''Bearer'')])\<rparr>, w)
        else (Inr \<lparr>status = member_status,
                   json = Inr (JObj [(''userId'', JStr ''auth0|abc123'')])\<rparr>, w)),
      Number_toString = (\<lambda>n. ''0'')\<rparr>"

definition alice :: user where
  "alice = \<lparr>user_id = ''abc123'', username = ''alice'', email = ''alice@example.com'',
            last_password_reset = ''2020-01-01T00:00:00.000Z''\<rparr>"

definition test_secrets :: secrets where
  "test_secrets =
     \<lparr>AUTH0_DOMAIN = ''upstandfm.eu.auth0.com'',
      ACCOUNT_CLIENT_ID = ''account-id'',
      ACCOUNT_CLIENT_SECRET = ''account-secret'',
      CREATE_WORKSPACE_MEMBER_CLIENT_ID = ''member-id'',
      CREATE_WORKSPACE_MEMBER_CLIENT_SECRET = ''member-secret'',
      AUDIENCE = ''https://api.upstand.fm'',
      TOKEN_ENDPOINT = ''https://upstandfm.eu.auth0.com/oauth/token''\<rparr>"

definition test_context :: hook_context where
  "test_context = \<lparr>webtask = \<lparr>secrets = test_secrets\<rparr>\<rparr>"

definition invited :: jsval where
  "invited = JObj [(''isUserInvite'', JBool True), (''workspaceId'', JStr ''ws1''),
                   (''inviteMsg'', JStr ''welcome'')]"

definition not_invited :: jsval where
  "not_invited = JObj [(''isUserInvite'', JBool False), (''workspaceId'', JStr ''ws1''),
                       (''inviteMsg'', JStr '''')]"

text \<open>
  Three variants of the host: the constructor of the client throws; the user lookup
  rejects; the metadata update rejects. And stored metadata whose invite flag is the number
  1, the empty string, or absent.
\<close>

definition broken_client_host :: "jsval host" where
  "broken_client_host =
     (test_host 200 201)
       \<lparr>ManagementClient := (\<lambda>opts. Some (LibraryError ''ArgumentError''))\<rparr>"

definition no_user_host :: "jsval host" where
  "no_user_host =
     (test_host 200 201)\<lparr>getUser := (\<lambda>i w. (Inl (LibraryError ''Not Found''), w))\<rparr>"

definition readonly_host :: "jsval host" where
  "readonly_host =
     (test_host 200 201)
       \<lparr>updateAppMetadata := (\<lambda>i new w. (Some (LibraryError ''Forbidden''), w))\<rparr>"

definition invited_by_number :: jsval where
  "invited_by_number =
     JObj [(''isUserInvite'', JNum (Finite 1)), (''workspaceId'', JStr ''ws1'')]"

definition invited_by_empty_string :: jsval where
  "invited_by_empty_string =
     JObj [(''isUserInvite'', JStr ''''), (''workspaceId'', JStr ''ws1'')]"

definition no_flag :: jsval where
  "no_flag = JObj [(''workspaceId'', JStr ''ws1'')]"

text \<open>
  Stored metadata with the invite flag set whose workspace id is the object
  \<^verbatim>\<open>{"toString": "x"}\<close>, which no template literal can convert.
\<close>

definition invited_bad_workspace :: jsval where
  "invited_bad_workspace =
     JObj [(''isUserInvite'', JBool True),
           (''workspaceId'', JObj [(''toString'', JStr ''x'')])]"

text \<open>
  A host whose token endpoint answers 200 with the body
  \<^verbatim>\<open>{"access_token": {"toString": 1}}\<close>: a token that no template literal can convert.
\<close>

definition odd_token_host :: "jsval host" where
  "odd_token_host =
     (test_host 200 201)
       \<lparr>fetch := (\<lambda>url opts w.
          if url = ''https://upstandfm.eu.auth0.com/oauth/token''
          then (Inr \<lparr>status = 200,
                     json = Inr (JObj [(''access_token'',
                                        JObj [(''toString'', JNum (Finite 1))])])\<rparr>, w)
          else fetch (test_host 200 201) url opts w)\<rparr>"


section \<open>Facts about the two helper functions\<close>

lemma getToken_state:
  "snd (getToken h sc s) =
     (fst s @ [Fetch (TOKEN_ENDPOINT sc) (token_options sc)],
      snd (fetch h (TOKEN_ENDPOINT sc) (token_options sc) (snd s)))"
  by (simp add: getToken_def Let_def split: prod.splits sum.splits)

lemma createMember_conversion_error:
  "ToString (Number_toString h) ws = Inl e \<Longrightarrow>
     createMember h token ws uid mail s = (Inl e, s)"
  "ToString (Number_toString h) ws = Inr wt \<Longrightarrow>
   ToString (Number_toString h) token = Inl e \<Longrightarrow>
     createMember h token ws uid mail s = (Inl e, s)"
  by (simp_all add: createMember_def)

lemma createMember_state:
  assumes "ToString (Number_toString h) ws = Inr wt"
    and "ToString (Number_toString h) token = Inr tt"
  shows "snd (createMember h token ws uid mail s) =
     (fst s @ [Fetch (member_url wt) (member_options tt uid mail)],
      snd (fetch h (member_url wt) (member_options tt uid mail) (snd s)))"
  using assms by (simp add: createMember_def Let_def split: prod.splits sum.splits)

lemma createMember_trace_Inr:
  "createMember h token ws uid mail s = (Inr member, s3) \<Longrightarrow>
     \<exists>url opts. fst s3 = fst s @ [Fetch url opts]"
  by (auto simp add: createMember_def Let_def split: prod.splits sum.splits if_splits)

lemma createMember_trace_Inl:
  "createMember h token ws uid mail s = (Inl e, s3) \<Longrightarrow>
     fst s3 = fst s \<or> (\<exists>url opts. fst s3 = fst s @ [Fetch url opts])"
  by (auto simp add: createMember_def Let_def split: prod.splits sum.splits if_splits)

lemma prop_of_nullish: "nullish v \<Longrightarrow> prop_of v k = JUndefined"
  by (auto simp: nullish_def)

lemma truthy_prop_not_nullish: "truthy (prop_of v k) \<Longrightarrow> \<not> nullish v"
  using prop_of_nullish [of v k] by auto

lemma truthy_flag_fetched:
  assumes "truthy (prop_of (app_metadata_of fetched) ''isUserInvite'')"
  shows "\<not> nullish fetched"
proof
  assume "nullish fetched"
  then have "app_metadata_of fetched = JObj []"
    by (simp add: prop_of_nullish with_default_def)
  with assms show False by simp
qed

lemma hook_invite:
  assumes "ManagementClient h (management_options (secrets (webtask ctx))) = None"
    and "getUser h (''auth0|'' @ user_id user) w = (Inr fetched, w1)"
    and "truthy (prop_of (app_metadata_of fetched) ''isUserInvite'')"
  shows "createWorkspaceMember h user ctx w =
     (case getToken h (secrets (webtask ctx)) ([GetUser (''auth0|'' @ user_id user)], w1) of
        (Inl err, s2) \<Rightarrow> catch err s2
      | (Inr token, s2) \<Rightarrow>
          (case createMember h token (prop_of (app_metadata_of fetched) ''workspaceId'')
                  (''auth0|'' @ user_id user) (email user) s2 of
             (Inl err, s3) \<Rightarrow> catch err s3
           | (Inr member, s3) \<Rightarrow>
               (case updateAppMetadata h (''auth0|'' @ user_id user) cleared_metadata (snd s3) of
                  (Some err, w4) \<Rightarrow>
                    catch err (fst s3 @ [UpdateAppMetadata (''auth0|'' @ user_id user)
                                           cleared_metadata], w4)
                | (None, w4) \<Rightarrow>
                    \<lparr>calls = fst s3 @ [UpdateAppMetadata (''auth0|'' @ user_id user)
                                             cleared_metadata],
                     cb_calls = [None], world = w4\<rparr>)))"
proof -
  have a: "\<not> nullish fetched" using assms(3) by (rule truthy_flag_fetched)
  have b: "\<not> nullish (app_metadata_of fetched)"
    using assms(3) by (rule truthy_prop_not_nullish)
  show ?thesis
    using assms a b
    by (simp add: createWorkspaceMember_def get_prop_def Let_def
             split: prod.splits sum.splits option.splits)
qed

lemmas test_defs = test_host_def alice_def test_secrets_def test_context_def invited_def
  not_invited_def

lemma hook_shape:
  "\<exists>url opts e.
     (ManagementClient h (management_options (secrets (webtask ctx))) = Some e
        \<and> calls (createWorkspaceMember h user ctx w) = []
        \<and> cb_calls (createWorkspaceMember h user ctx w) = [Some e])
   \<or> (calls (createWorkspaceMember h user ctx w) = [GetUser (''auth0|'' @ user_id user)]
        \<and> (cb_calls (createWorkspaceMember h user ctx w) = [Some e]
             \<or> cb_calls (createWorkspaceMember h user ctx w) = []))
   \<or> (calls (createWorkspaceMember h user ctx w) =
          [GetUser (''auth0|'' @ user_id user),
           Fetch (TOKEN_ENDPOINT (secrets (webtask ctx))) (token_options (secrets (webtask ctx)))]
        \<and> cb_calls (createWorkspaceMember h user ctx w) = [Some e])
   \<or> (calls (createWorkspaceMember h user ctx w) =
          [GetUser (''auth0|'' @ user_id user),
           Fetch (TOKEN_ENDPOINT (secrets (webtask ctx))) (token_options (secrets (webtask ctx))),
           Fetch url opts]
        \<and> cb_calls (createWorkspaceMember h user ctx w) = [Some e])
   \<or> (calls (createWorkspaceMember h user ctx w) =
          [GetUser (''auth0|'' @ user_id user),
           Fetch (TOKEN_ENDPOINT (secrets (webtask ctx))) (token_options (secrets (webtask ctx))),
           Fetch url opts,
           UpdateAppMetadata (''auth0|'' @ user_id user) cleared_metadata]
        \<and> (cb_calls (createWorkspaceMember h user ctx w) = [Some e]
             \<or> cb_calls (createWorkspaceMember h user ctx w) = [None]))"
proof -
  have t: "\<And>s x s2. getToken h (secrets (webtask ctx)) s = (x, s2) \<Longrightarrow>
      fst s2 = fst s @ [Fetch (TOKEN_ENDPOINT (secrets (webtask ctx)))
                           (token_options (secrets (webtask ctx)))]"
    using getToken_state [of h "secrets (webtask ctx)"] by (metis fst_conv snd_conv)
  show ?thesis
    unfolding createWorkspaceMember_def Let_def catch_def
    by (auto split: prod.splits sum.splits option.splits
          dest!: t createMember_trace_Inr createMember_trace_Inl)
qed

lemma getToken_ok:
  assumes "fetch h (TOKEN_ENDPOINT sc) (token_options sc) (snd s) = (Inr res, w')"
    and "ok res" and "json res = Inr parsed" and "\<not> nullish parsed"
  shows "getToken h sc s =
           (Inr (prop_of parsed ''access_token''),
            fst s @ [Fetch (TOKEN_ENDPOINT sc) (token_options sc)], w')"
  using assms by (simp add: getToken_def Let_def get_prop_def)

lemma getToken_not_ok:
  assumes "fetch h (TOKEN_ENDPOINT sc) (token_options sc) (snd s) = (Inr res, w')"
    and "\<not> ok res"
  shows "getToken h sc s =
           (Inl (Error ''Failed to fetch token''),
            fst s @ [Fetch (TOKEN_ENDPOINT sc) (token_options sc)], w')"
  using assms by (simp add: getToken_def Let_def)

lemma createMember_ok:
  assumes "ToString (Number_toString h) ws = Inr wt"
    and "ToString (Number_toString h) token = Inr tt"
    and "fetch h (member_url wt) (member_options tt uid mail) (snd s) = (Inr res, w')"
    and "ok res" and "json res = Inr member"
  shows "createMember h token ws uid mail s =
           (Inr member, fst s @ [Fetch (member_url wt) (member_options tt uid mail)], w')"
  using assms by (simp add: createMember_def Let_def)

lemma createMember_not_ok:
  assumes "ToString (Number_toString h) ws = Inr wt"
    and "ToString (Number_toString h) token = Inr tt"
    and "fetch h (member_url wt) (member_options tt uid mail) (snd s) = (Inr res, w')"
    and "\<not> ok res"
  shows "createMember h token ws uid mail s =
           (Inl (Error ''Failed to create workspace member''),
            fst s @ [Fetch (member_url wt) (member_options tt uid mail)], w')"
  using assms by (simp add: createMember_def Let_def)

lemma hook_success:
  assumes "ManagementClient h (management_options (secrets (webtask ctx))) = None"
    and "getUser h (''auth0|'' @ user_id user) w = (Inr fetched, w1)"
    and "truthy (prop_of (app_metadata_of fetched) ''isUserInvite'')"
    and "fetch h (TOKEN_ENDPOINT (secrets (webtask ctx))) (token_options (secrets (webtask ctx))) w1
           = (Inr tres, w2)"
    and "ok tres" and "json tres = Inr parsed" and "\<not> nullish parsed"
    and "ToString (Number_toString h) (prop_of (app_metadata_of fetched) ''workspaceId'')
           = Inr wt"
    and "ToString (Number_toString h) (prop_of parsed ''access_token'') = Inr tt"
    and "fetch h (member_url wt)
           (member_options tt (''auth0|'' @ user_id user) (email user)) w2 = (Inr mres, w3)"
    and "ok mres" and "json mres = Inr member"
    and "updateAppMetadata h (''auth0|'' @ user_id user) cleared_metadata w3 = (None, w4)"
  shows "createWorkspaceMember h user ctx w =
     \<lparr>calls = [GetUser (''auth0|'' @ user_id user),
               Fetch (TOKEN_ENDPOINT (secrets (webtask ctx)))
                 (token_options (secrets (webtask ctx))),
               Fetch (member_url wt)
                 (member_options tt (''auth0|'' @ user_id user) (email user)),
               UpdateAppMetadata (''auth0|'' @ user_id user) cleared_metadata],
      cb_calls = [None], world = w4\<rparr>"
proof -
  have t: "getToken h (secrets (webtask ctx)) ([GetUser (''auth0|'' @ user_id user)], w1) =
      (Inr (prop_of parsed ''access_token''),
       [GetUser (''auth0|'' @ user_id user),
        Fetch (TOKEN_ENDPOINT (secrets (webtask ctx))) (token_options (secrets (webtask ctx)))],
       w2)"
    using getToken_ok [of h "secrets (webtask ctx)" "([GetUser (''auth0|'' @ user_id user)], w1)"
        tres w2 parsed] assms(4-7) by simp
  have m: "createMember h (prop_of parsed ''access_token'')
      (prop_of (app_metadata_of fetched) ''workspaceId'') (''auth0|'' @ user_id user) (email user)
      ([GetUser (''auth0|'' @ user_id user),
        Fetch (TOKEN_ENDPOINT (secrets (webtask ctx))) (token_options (secrets (webtask ctx)))],
       w2) =
      (Inr member,
       [GetUser (''auth0|'' @ user_id user),
        Fetch (TOKEN_ENDPOINT (secrets (webtask ctx))) (token_options (secrets (webtask ctx))),
        Fetch (member_url wt)
          (member_options tt (''auth0|'' @ user_id user) (email user))], w3)"
    using createMember_ok [where s = "([GetUser (''auth0|'' @ user_id user),
        Fetch (TOKEN_ENDPOINT (secrets (webtask ctx))) (token_options (secrets (webtask ctx)))],
       w2)", OF assms(8,9) _ assms(11,12)] assms(10) by simp
  show ?thesis
    unfolding hook_invite [OF assms(1-3)] t using m assms(13) by simp
qed


section \<open>Facts about the paths of the hook\<close>

lemma hook_token_failure:
  assumes "ManagementClient h (management_options (secrets (webtask ctx))) = None"
    and "getUser h (''auth0|'' @ user_id user) w = (Inr fetched, w1)"
    and "truthy (prop_of (app_metadata_of fetched) ''isUserInvite'')"
    and "getToken h (secrets (webtask ctx)) ([GetUser (''auth0|'' @ user_id user)], w1)
           = (Inl e, s2)"
  shows "createWorkspaceMember h user ctx w =
     \<lparr>calls = [GetUser (''auth0|'' @ user_id user),
               Fetch (TOKEN_ENDPOINT (secrets (webtask ctx)))
                 (token_options (secrets (webtask ctx)))],
      cb_calls = [Some e], world = snd s2\<rparr>"
proof -
  have "fst s2 = [GetUser (''auth0|'' @ user_id user),
               Fetch (TOKEN_ENDPOINT (secrets (webtask ctx)))
                 (token_options (secrets (webtask ctx)))]"
    using getToken_state [of h "secrets (webtask ctx)"
        "([GetUser (''auth0|'' @ user_id user)], w1)"] assms(4) by simp
  then show ?thesis
    unfolding hook_invite [OF assms(1-3)] assms(4) by (simp add: catch_def)
qed

lemma hook_member_failure:
  assumes "ManagementClient h (management_options (secrets (webtask ctx))) = None"
    and "getUser h (''auth0|'' @ user_id user) w = (Inr fetched, w1)"
    and "truthy (prop_of (app_metadata_of fetched) ''isUserInvite'')"
    and "getToken h (secrets (webtask ctx)) ([GetUser (''auth0|'' @ user_id user)], w1)
           = (Inr token, s2)"
    and "createMember h token (prop_of (app_metadata_of fetched) ''workspaceId'')
           (''auth0|'' @ user_id user) (email user) s2 = (Inl e, s3)"
  shows "createWorkspaceMember h user ctx w =
     \<lparr>calls = fst s3, cb_calls = [Some e], world = snd s3\<rparr>"
  unfolding hook_invite [OF assms(1-3)] using assms(4,5) by (simp add: catch_def)

lemma getToken_trace:
  assumes "getToken h sc ([GetUser uid], w1) = (x, s2)"
  shows "fst s2 = [GetUser uid, Fetch (TOKEN_ENDPOINT sc) (token_options sc)]"
  using getToken_state [of h sc "([GetUser uid], w1)"] assms by simp

lemma hook_conversion_failure:
  assumes "ManagementClient h (management_options (secrets (webtask ctx))) = None"
    and "getUser h (''auth0|'' @ user_id user) w = (Inr fetched, w1)"
    and "truthy (prop_of (app_metadata_of fetched) ''isUserInvite'')"
    and "getToken h (secrets (webtask ctx)) ([GetUser (''auth0|'' @ user_id user)], w1)
           = (Inr token, s2)"
    and "ToString (Number_toString h) (prop_of (app_metadata_of fetched) ''workspaceId'')
           = Inl e
         \<or> (\<exists>wt. ToString (Number_toString h)
                    (prop_of (app_metadata_of fetched) ''workspaceId'') = Inr wt)
           \<and> ToString (Number_toString h) token = Inl e"
  shows "createWorkspaceMember h user ctx w =
     \<lparr>calls = [GetUser (''auth0|'' @ user_id user),
               Fetch (TOKEN_ENDPOINT (secrets (webtask ctx)))
                 (token_options (secrets (webtask ctx)))],
      cb_calls = [Some e], world = snd s2\<rparr>"
proof -
  have c: "createMember h token (prop_of (app_metadata_of fetched) ''workspaceId'')
           (''auth0|'' @ user_id user) (email user) s2 = (Inl e, s2)"
    using assms(5) createMember_conversion_error [of h _ _ token] by blast
  show ?thesis
    unfolding hook_member_failure [OF assms(1-4) c] getToken_trace [OF assms(4)] ..
qed

lemma hook_member_request_failure:
  assumes "ManagementClient h (management_options (secrets (webtask ctx))) = None"
    and "getUser h (''auth0|'' @ user_id user) w = (Inr fetched, w1)"
    and "truthy (prop_of (app_metadata_of fetched) ''isUserInvite'')"
    and "getToken h (secrets (webtask ctx)) ([GetUser (''auth0|'' @ user_id user)], w1)
           = (Inr token, s2)"
    and "ToString (Number_toString h) (prop_of (app_metadata_of fetched) ''workspaceId'')
           = Inr wt"
    and "ToString (Number_toString h) token = Inr tt"
    and "createMember h token (prop_of (app_metadata_of fetched) ''workspaceId'')
           (''auth0|'' @ user_id user) (email user) s2 = (Inl e, s3)"
  shows "createWorkspaceMember h user ctx w =
     \<lparr>calls = [GetUser (''auth0|'' @ user_id user),
               Fetch (TOKEN_ENDPOINT (secrets (webtask ctx)))
                 (token_options (secrets (webtask ctx))),
               Fetch (member_url wt)
                 (member_options tt (''auth0|'' @ user_id user) (email user))],
      cb_calls = [Some e], world = snd s3\<rparr>"
proof -
  have "fst s3 = fst s2 @
               [Fetch (member_url wt)
                 (member_options tt (''auth0|'' @ user_id user) (email user))]"
    using createMember_state [OF assms(5,6), of "''auth0|'' @ user_id user" "email user" s2]
      assms(7) by simp
  then show ?thesis
    unfolding hook_member_failure [OF assms(1-4,7)] getToken_trace [OF assms(4)] by simp
qed

lemma hook_update_failure:
  assumes "ManagementClient h (management_options (secrets (webtask ctx))) = None"
    and "getUser h (''auth0|'' @ user_id user) w = (Inr fetched, w1)"
    and "truthy (prop_of (app_metadata_of fetched) ''isUserInvite'')"
    and "getToken h (secrets (webtask ctx)) ([GetUser (''auth0|'' @ user_id user)], w1)
           = (Inr token, s2)"
    and "ToString (Number_toString h) (prop_of (app_metadata_of fetched) ''workspaceId'')
           = Inr wt"
    and "ToString (Number_toString h) token = Inr tt"
    and "createMember h token (prop_of (app_metadata_of fetched) ''workspaceId'')
           (''auth0|'' @ user_id user) (email user) s2 = (Inr member, s3)"
    and "updateAppMetadata h (''auth0|'' @ user_id user) cleared_metadata (snd s3) = (Some e, w4)"
  shows "createWorkspaceMember h user ctx w =
     \<lparr>calls = [GetUser (''auth0|'' @ user_id user),
               Fetch (TOKEN_ENDPOINT (secrets (webtask ctx)))
                 (token_options (secrets (webtask ctx))),
               Fetch (member_url wt)
                 (member_options tt (''auth0|'' @ user_id user) (email user)),
               UpdateAppMetadata (''auth0|'' @ user_id user) cleared_metadata],
      cb_calls = [Some e], world = w4\<rparr>"
proof -
  have 2: "fst s2 = [GetUser (''auth0|'' @ user_id user),
               Fetch (TOKEN_ENDPOINT (secrets (webtask ctx)))
                 (token_options (secrets (webtask ctx)))]"
    by (rule getToken_trace [OF assms(4)])
  have "fst s3 = fst s2 @
               [Fetch (member_url wt)
                 (member_options tt (''auth0|'' @ user_id user) (email user))]"
    using createMember_state [OF assms(5,6), of "''auth0|'' @ user_id user" "email user" s2]
      assms(7) by simp
  with 2 show ?thesis
    unfolding hook_invite [OF assms(1-3)] using assms(4,7,8) by (simp add: catch_def)
qed

lemma hook_early_failures:
  "ManagementClient h (management_options (secrets (webtask ctx))) = Some e \<Longrightarrow>
     createWorkspaceMember h user ctx w = \<lparr>calls = [], cb_calls = [Some e], world = w\<rparr>"
  "ManagementClient h (management_options (secrets (webtask ctx))) = None \<Longrightarrow>
   getUser h (''auth0|'' @ user_id user) w = (Inl e, w1) \<Longrightarrow>
     createWorkspaceMember h user ctx w =
       \<lparr>calls = [GetUser (''auth0|'' @ user_id user)], cb_calls = [Some e], world = w1\<rparr>"
  "ManagementClient h (management_options (secrets (webtask ctx))) = None \<Longrightarrow>
   getUser h (''auth0|'' @ user_id user) w = (Inr fetched, w1) \<Longrightarrow>
   nullish fetched \<or> prop_of fetched ''app_metadata'' = JNull \<Longrightarrow>
     createWorkspaceMember h user ctx w =
       \<lparr>calls = [GetUser (''auth0|'' @ user_id user)], cb_calls = [Some TypeError],
        world = w1\<rparr>"
  by (auto simp add: createWorkspaceMember_def catch_def get_prop_def with_default_def
        nullish_def)

lemma hook_noop:
  assumes "ManagementClient h (management_options (secrets (webtask ctx))) = None"
    and "getUser h (''auth0|'' @ user_id user) w = (Inr fetched, w1)"
    and "\<not> nullish fetched" and "prop_of fetched ''app_metadata'' \<noteq> JNull"
    and "\<not> truthy (prop_of (app_metadata_of fetched) ''isUserInvite'')"
  shows "createWorkspaceMember h user ctx w =
       \<lparr>calls = [GetUser (''auth0|'' @ user_id user)], cb_calls = [], world = w1\<rparr>"
  using assms
  by (auto simp add: createWorkspaceMember_def get_prop_def with_default_def nullish_def)


section \<open>Runs of the test host\<close>

lemma test_ManagementClient: "ManagementClient (test_host a b) opts = None"
  by (simp add: test_host_def)

lemma test_getUser:
  "w \<noteq> JUndefined \<Longrightarrow> getUser (test_host a b) i w =
     (Inr (JObj [(''user_id'', JStr i), (''app_metadata'', w)]), w)"
  by (simp add: test_host_def)

lemma test_fetch_token:
  "fetch (test_host a b) (TOKEN_ENDPOINT test_secrets) opts w =
     (Inr \<lparr>status = a, json = Inr (JObj [(''access_token'', JStr ''t0k3n''),
                                          (''token_type'', JStr ''Bearer'')])\<rparr>, w)"
  by (simp add: test_host_def test_secrets_def)

lemma test_fetch_member:
  "fetch (test_host a b) (member_url ''ws1'') opts w =
     (Inr \<lparr>status = b, json = Inr (JObj [(''userId'', JStr ''auth0|abc123'')])\<rparr>, w)"
  by (simp add: test_host_def)

lemma test_update:
  "updateAppMetadata (test_host a b) i new w = (None, merge_metadata w new)"
  by (simp add: test_host_def)

lemma test_secrets_context: "test_secrets = secrets (webtask test_context)"
  by (simp add: test_context_def)

lemma alice_userId: "''auth0|abc123'' = ''auth0|'' @ user_id alice"
  by (simp add: alice_def)

lemma invited_props:
  "invited \<noteq> JUndefined"
  "prop_of (app_metadata_of (JObj [(''user_id'', JStr i), (''app_metadata'', invited)]))
     ''isUserInvite'' = JBool True"
  "prop_of (app_metadata_of (JObj [(''user_id'', JStr i), (''app_metadata'', invited)]))
     ''workspaceId'' = JStr ''ws1''"
  by (simp_all add: invited_def with_default_def)

lemma test_run_success:
  "createWorkspaceMember (test_host 200 201) alice test_context invited =
     \<lparr>calls = [GetUser ''auth0|abc123'',
               Fetch (TOKEN_ENDPOINT test_secrets) (token_options test_secrets),
               Fetch ''https://api.upstand.fm/workspaces/ws1/members''
                 (member_options ''t0k3n'' ''auth0|abc123'' ''alice@example.com''),
               UpdateAppMetadata ''auth0|abc123''
                 (JObj [(''isUserInvite'', JBool False), (''inviteMsg'', JStr '''')])],
      cb_calls = [None],
      world = JObj [(''isUserInvite'', JBool False), (''inviteMsg'', JStr ''''),
                    (''workspaceId'', JStr ''ws1'')]\<rparr>"
  by (simp add: createWorkspaceMember_def getToken_def createMember_def test_defs get_prop_def
        nullish_def with_default_def ok_def catch_def Let_def)

lemma test_getUser_bare:
  "getUser (test_host a b) i JUndefined = (Inr (JObj [(''user_id'', JStr i)]), JUndefined)"
  by (simp add: test_host_def)

lemma invited_by_number_props:
  "invited_by_number \<noteq> JUndefined"
  "JNum (Finite 1) = prop_of (app_metadata_of
     (JObj [(''user_id'', JStr i), (''app_metadata'', invited_by_number)])) ''isUserInvite''"
  "JStr ''ws1'' = prop_of (app_metadata_of
     (JObj [(''user_id'', JStr i), (''app_metadata'', invited_by_number)])) ''workspaceId''"
  "prop_of (JObj [(''user_id'', JStr i), (''app_metadata'', invited_by_number)])
     ''app_metadata'' \<noteq> JNull"
  by (simp_all add: invited_by_number_def with_default_def)

lemma invited_by_empty_string_props:
  "invited_by_empty_string \<noteq> JUndefined"
  "JStr '''' = prop_of (app_metadata_of
     (JObj [(''user_id'', JStr i), (''app_metadata'', invited_by_empty_string)]))
     ''isUserInvite''"
  "JStr ''ws1'' = prop_of (app_metadata_of
     (JObj [(''user_id'', JStr i), (''app_metadata'', invited_by_empty_string)]))
     ''workspaceId''"
  "prop_of (JObj [(''user_id'', JStr i), (''app_metadata'', invited_by_empty_string)])
     ''app_metadata'' \<noteq> JNull"
  by (simp_all add: invited_by_empty_string_def with_default_def)

lemma test_getToken_401:
  "getToken (test_host 401 201) test_secrets ([GetUser ''auth0|abc123''], w) =
     (Inl (Error ''Failed to fetch token''),
      [GetUser ''auth0|abc123'',
       Fetch (TOKEN_ENDPOINT test_secrets) (token_options test_secrets)], w)"
  by (simp add: getToken_def test_host_def test_secrets_def ok_def)

lemma test_getToken_200:
  "getToken (test_host 200 b) test_secrets ([GetUser ''auth0|abc123''], w) =
     (Inr (JStr ''t0k3n''),
      [GetUser ''auth0|abc123'',
       Fetch (TOKEN_ENDPOINT test_secrets) (token_options test_secrets)], w)"
  by (simp add: getToken_def test_host_def test_secrets_def ok_def get_prop_def nullish_def)

lemma test_getToken_readonly:
  "getToken readonly_host test_secrets ([GetUser ''auth0|abc123''], w) =
     (Inr (JStr ''t0k3n''),
      [GetUser ''auth0|abc123'',
       Fetch (TOKEN_ENDPOINT test_secrets) (token_options test_secrets)], w)"
  by (simp add: getToken_def readonly_host_def test_host_def test_secrets_def ok_def
        get_prop_def nullish_def)

lemma test_createMember_500:
  "createMember (test_host 200 500) (JStr ''t0k3n'') (JStr ''ws1'') ''auth0|abc123''
     (email alice)
     ([GetUser ''auth0|abc123'',
       Fetch (TOKEN_ENDPOINT test_secrets) (token_options test_secrets)], w) =
     (Inl (Error ''Failed to create workspace member''),
      [GetUser ''auth0|abc123'',
       Fetch (TOKEN_ENDPOINT test_secrets) (token_options test_secrets),
       Fetch (member_url ''ws1'')
         (member_options ''t0k3n'' ''auth0|abc123'' (email alice))], w)"
  by (simp add: createMember_def test_host_def ok_def)

lemma test_createMember_readonly:
  "createMember readonly_host (JStr ''t0k3n'') (JStr ''ws1'') ''auth0|abc123''
     (email alice)
     ([GetUser ''auth0|abc123'',
       Fetch (TOKEN_ENDPOINT test_secrets) (token_options test_secrets)], w) =
     (Inr (JObj [(''userId'', JStr ''auth0|abc123'')]),
      [GetUser ''auth0|abc123'',
       Fetch (TOKEN_ENDPOINT test_secrets) (token_options test_secrets),
       Fetch (member_url ''ws1'')
         (member_options ''t0k3n'' ''auth0|abc123'' (email alice))], w)"
  by (simp add: createMember_def readonly_host_def test_host_def ok_def)

lemma broken_client_host_runs:
  "ManagementClient broken_client_host opts = Some (LibraryError ''ArgumentError'')"
  by (simp add: broken_client_host_def)

lemma no_user_host_runs:
  "ManagementClient no_user_host opts = None"
  "getUser no_user_host i w = (Inl (LibraryError ''Not Found''), w)"
  by (simp_all add: no_user_host_def test_host_def)

lemma readonly_host_runs:
  "ManagementClient readonly_host opts = None"
  "w \<noteq> JUndefined \<Longrightarrow> getUser readonly_host i w =
     (Inr (JObj [(''user_id'', JStr i), (''app_metadata'', w)]), w)"
  "updateAppMetadata readonly_host i new w = (Some (LibraryError ''Forbidden''), w)"
  by (simp_all add: readonly_host_def test_host_def)

lemma invited_bad_workspace_props:
  "invited_bad_workspace \<noteq> JUndefined"
  "truthy (prop_of (app_metadata_of
     (JObj [(''user_id'', JStr i), (''app_metadata'', invited_bad_workspace)]))
     ''isUserInvite'')"
  "ToString nts (prop_of (app_metadata_of
     (JObj [(''user_id'', JStr i), (''app_metadata'', invited_bad_workspace)]))
     ''workspaceId'') = Inl TypeError"
  by (simp_all add: invited_bad_workspace_def with_default_def)

lemma ToString_JStr: "ToString nts (JStr s) = Inr s"
  by simp

lemma odd_token_host_runs:
  "ManagementClient odd_token_host opts = None"
  "w \<noteq> JUndefined \<Longrightarrow> getUser odd_token_host i w =
     (Inr (JObj [(''user_id'', JStr i), (''app_metadata'', w)]), w)"
  "getToken odd_token_host test_secrets ([GetUser ''auth0|abc123''], w) =
     (Inr (JObj [(''toString'', JNum (Finite 1))]),
      [GetUser ''auth0|abc123'',
       Fetch (TOKEN_ENDPOINT test_secrets) (token_options test_secrets)], w)"
  "createMember odd_token_host (JObj [(''toString'', JNum (Finite 1))]) (JStr ''ws1'') uid mail s
     = (Inl TypeError, s)"
  by (simp_all add: odd_token_host_def test_host_def getToken_def createMember_def
        test_secrets_def ok_def get_prop_def nullish_def)


section \<open>The branch without an invitation\<close>

text \<open>
  C1. For a user whose fetched app metadata has a false invite flag, the hook makes no
  outbound call beyond the metadata read, and it should signal successful completion by
  invoking the completion callback with no error. The run below is the code on such a
  user: the only call is the metadata read, and the callback is invoked not at all, because
  the branch leaves the function by \<^verbatim>\<open>return\<close> before \<^verbatim>\<open>cb()\<close>.
\<close>

theorem noop_return_skips_callback:
  "createWorkspaceMember (test_host 200 201) alice test_context not_invited =
     \<lparr>calls = [GetUser ''auth0|abc123''], cb_calls = [], world = not_invited\<rparr>"
  by (simp add: createWorkspaceMember_def test_defs get_prop_def nullish_def with_default_def)


section \<open>The invitation branch\<close>

text \<open>
  C2. For a user whose fetched app metadata has the invite flag true, and with every
  outbound call made and succeeding (the token response is ok and its body parses to a
  value that can be destructured, the workspace id and the token convert to the strings
  of the member request, the member response is ok and its body parses, the metadata
  update resolves), the hook makes exactly these calls in this order: the metadata read,
  one token fetch, one member creation whose JSON body is
  \<^verbatim>\<open>{userId: "auth0|<id>", email: <the user's email>, fullName: "User"}\<close>, and one metadata
  replacement with \<^verbatim>\<open>{isUserInvite: false, inviteMsg: ""}\<close>; then it invokes the callback
  once, with no error.
\<close>

theorem invite_true_call_sequence:
  assumes "sc = secrets (webtask ctx)" and "uid = ''auth0|'' @ user_id user"
    and "ManagementClient h (management_options sc) = None"
    and "getUser h uid w = (Inr fetched, w1)"
    and "prop_of (app_metadata_of fetched) ''isUserInvite'' = JBool True"
    and "workspaceId = prop_of (app_metadata_of fetched) ''workspaceId''"
    and "fetch h (TOKEN_ENDPOINT sc) (token_options sc) w1 = (Inr tres, w2)"
    and "ok tres" and "json tres = Inr parsed" and "\<not> nullish parsed"
    and "token = prop_of parsed ''access_token''"
    and "ToString (Number_toString h) workspaceId = Inr workspaceText"
    and "ToString (Number_toString h) token = Inr tokenText"
    and "fetch h (member_url workspaceText) (member_options tokenText uid (email user)) w2
           = (Inr mres, w3)"
    and "ok mres" and "json mres = Inr member"
    and "updateAppMetadata h uid (JObj [(''isUserInvite'', JBool False), (''inviteMsg'', JStr '''')])
           w3 = (None, w4)"
  shows "createWorkspaceMember h user ctx w =
           \<lparr>calls = [GetUser uid,
                     Fetch (TOKEN_ENDPOINT sc) (token_options sc),
                     Fetch (member_url workspaceText)
                       (member_options tokenText uid (email user)),
                     UpdateAppMetadata uid
                       (JObj [(''isUserInvite'', JBool False), (''inviteMsg'', JStr '''')])],
            cb_calls = [None], world = w4\<rparr>
         \<and> body (member_options tokenText uid (email user)) =
             JSON_stringify (JObj [(''userId'', JStr (''auth0|'' @ user_id user)),
                                   (''email'', JStr (email user)),
                                   (''fullName'', JStr ''User'')])"
proof -
  have "truthy (prop_of (app_metadata_of fetched) ''isUserInvite'')"
    using assms(5) by simp
  then show ?thesis
    using hook_success [of h ctx user w fetched w1 tres w2 parsed workspaceText tokenText
        mres w3 member w4] assms
    by simp
qed

text \<open>
  The run of C2 on the test host, with both endpoints answering 2xx: the four calls, the
  callback without an error, and the stored metadata with the flag reset.
\<close>

theorem invite_true_call_sequence_witness:
  "createWorkspaceMember (test_host 200 201) alice test_context invited =
     \<lparr>calls = [GetUser ''auth0|abc123'',
               Fetch ''https://upstandfm.eu.auth0.com/oauth/token''
                 \<lparr>method = ''POST'', headers = [(''content-type'', ''application/json'')],
                  body = JSON_stringify (JObj
                    [(''client_id'', JStr ''member-id''),
                     (''client_secret'', JStr ''member-secret''),
                     (''audience'', JStr ''https://api.upstand.fm''),
                     (''grant_type'', JStr ''client_credentials'')])\<rparr>,
               Fetch ''https://api.upstand.fm/workspaces/ws1/members''
                 \<lparr>method = ''POST'',
                  headers = [(''content-type'', ''application/json''),
                             (''Authorization'', ''Bearer t0k3n'')],
                  body = JSON_stringify (JObj
                    [(''userId'', JStr ''auth0|abc123''),
                     (''email'', JStr ''alice@example.com''),
                     (''fullName'', JStr ''User'')])\<rparr>,
               UpdateAppMetadata ''auth0|abc123''
                 (JObj [(''isUserInvite'', JBool False), (''inviteMsg'', JStr '''')])],
      cb_calls = [None],
      world = JObj [(''isUserInvite'', JBool False), (''inviteMsg'', JStr ''''),
                    (''workspaceId'', JStr ''ws1'')]\<rparr>"
proof -
  have ws: "JStr ''ws1'' = prop_of (app_metadata_of
      (JObj [(''user_id'', JStr ''auth0|abc123''), (''app_metadata'', invited)])) ''workspaceId''"
    by (rule invited_props(3) [symmetric])
  have tok: "JStr ''t0k3n'' =
      prop_of (JObj [(''access_token'', JStr ''t0k3n''), (''token_type'', JStr ''Bearer'')])
        ''access_token''"
    by simp
  have run: "createWorkspaceMember (test_host 200 201) alice test_context invited =
      \<lparr>calls = [GetUser ''auth0|abc123'',
                Fetch (TOKEN_ENDPOINT test_secrets) (token_options test_secrets),
                Fetch (member_url ''ws1'')
                  (member_options ''t0k3n'' ''auth0|abc123'' (email alice)),
                UpdateAppMetadata ''auth0|abc123''
                  (JObj [(''isUserInvite'', JBool False), (''inviteMsg'', JStr '''')])],
       cb_calls = [None],
       world = merge_metadata invited
                 (JObj [(''isUserInvite'', JBool False), (''inviteMsg'', JStr '''')])\<rparr>"
    by (rule conjunct1
         [OF invite_true_call_sequence
           [OF test_secrets_context alice_userId test_ManagementClient
               test_getUser [OF invited_props(1)]
               invited_props(2) ws test_fetch_token _ _ _ tok ToString_JStr ToString_JStr
               test_fetch_member _ _ test_update]])
       (simp_all add: ok_def nullish_def)
  show ?thesis
    unfolding run by (simp add: test_secrets_def alice_def invited_def)
qed

text \<open>
  C3. Whenever the hook makes the metadata-replace call, its payload is exactly the literal
  object \<^verbatim>\<open>{isUserInvite: false, inviteMsg: ""}\<close>, whatever the stored metadata was;
  and the hook reports success only after it has made that call, so that after a
  successful provisioning the flag has been reset and the message cleared.
\<close>

theorem metadata_replace_payload:
  "(\<forall>i p. UpdateAppMetadata i p \<in> set (calls (createWorkspaceMember h user ctx w)) \<longrightarrow>
       p = JObj [(''isUserInvite'', JBool False), (''inviteMsg'', JStr '''')])
   \<and> (cb_calls (createWorkspaceMember h user ctx w) = [None] \<longrightarrow>
       UpdateAppMetadata (''auth0|'' @ user_id user)
         (JObj [(''isUserInvite'', JBool False), (''inviteMsg'', JStr '''')])
         \<in> set (calls (createWorkspaceMember h user ctx w)))"
  using hook_shape [where h = h and user = user and ctx = ctx and w = w] by (elim exE disjE conjE) simp_all

text \<open>
  The successful run on the test host makes the call with this payload, and the stored
  metadata afterwards has the flag false and the message empty.
\<close>

theorem metadata_replace_payload_witness:
  "UpdateAppMetadata ''auth0|abc123''
     (JObj [(''isUserInvite'', JBool False), (''inviteMsg'', JStr '''')])
     \<in> set (calls (createWorkspaceMember (test_host 200 201) alice test_context invited))
   \<and> cb_calls (createWorkspaceMember (test_host 200 201) alice test_context invited) = [None]
   \<and> prop_of (world (createWorkspaceMember (test_host 200 201) alice test_context invited))
         ''isUserInvite'' = JBool False
   \<and> prop_of (world (createWorkspaceMember (test_host 200 201) alice test_context invited))
         ''inviteMsg'' = JStr ''''"
proof -
  have c: "cb_calls (createWorkspaceMember (test_host 200 201) alice test_context invited)
      = [None]"
    unfolding test_run_success by simp
  have "UpdateAppMetadata (''auth0|'' @ user_id alice)
     (JObj [(''isUserInvite'', JBool False), (''inviteMsg'', JStr '''')])
     \<in> set (calls (createWorkspaceMember (test_host 200 201) alice test_context invited))"
    by (rule mp [OF conjunct2 [OF metadata_replace_payload] c])
  then have "UpdateAppMetadata ''auth0|abc123''
     (JObj [(''isUserInvite'', JBool False), (''inviteMsg'', JStr '''')])
     \<in> set (calls (createWorkspaceMember (test_host 200 201) alice test_context invited))"
    by (simp add: alice_def)
  moreover have "prop_of (world (createWorkspaceMember (test_host 200 201) alice test_context
      invited)) ''isUserInvite'' = JBool False"
    unfolding test_run_success by simp
  moreover have "prop_of (world (createWorkspaceMember (test_host 200 201) alice test_context
      invited)) ''inviteMsg'' = JStr ''''"
    unfolding test_run_success by simp
  ultimately show ?thesis using c by simp
qed


section \<open>Failures of the token and member endpoints\<close>

text \<open>
  C4. When the invite flag is set and the token endpoint answers with a status outside
  200-299 (401, say), the token acquisition fails, the hook makes no member-creation call
  and no metadata-replace call (the trace ends with the token fetch), and the callback
  receives the error.
\<close>

theorem token_failure_stops_hook:
  assumes "sc = secrets (webtask ctx)" and "uid = ''auth0|'' @ user_id user"
    and "ManagementClient h (management_options sc) = None"
    and "getUser h uid w = (Inr fetched, w1)"
    and "truthy (prop_of (app_metadata_of fetched) ''isUserInvite'')"
    and "fetch h (TOKEN_ENDPOINT sc) (token_options sc) w1 = (Inr tres, w2)"
    and "\<not> ok tres"
  shows "fst (getToken h sc ([GetUser uid], w1)) = Inl (Error ''Failed to fetch token'')
         \<and> createWorkspaceMember h user ctx w =
             \<lparr>calls = [GetUser uid, Fetch (TOKEN_ENDPOINT sc) (token_options sc)],
              cb_calls = [Some (Error ''Failed to fetch token'')], world = w2\<rparr>"
proof -
  have t: "getToken h sc ([GetUser uid], w1) =
      (Inl (Error ''Failed to fetch token''),
       [GetUser uid] @ [Fetch (TOKEN_ENDPOINT sc) (token_options sc)], w2)"
    using getToken_not_ok [of h sc "([GetUser uid], w1)" tres w2] assms(6,7) by simp
  show ?thesis
    using hook_token_failure [of h ctx user w fetched w1 "Error ''Failed to fetch token''"
        "([GetUser uid] @ [Fetch (TOKEN_ENDPOINT sc) (token_options sc)], w2)"]
      t assms(1-5)
    by simp
qed

text \<open>The run of C4 on the test host, whose token endpoint answers 401.\<close>

theorem token_failure_stops_hook_witness:
  "\<not> ok \<lparr>status = 401, json = Inr (JObj [(''access_token'', JStr ''t0k3n''),
                                            (''token_type'', JStr ''Bearer'')])\<rparr>
   \<and> createWorkspaceMember (test_host 401 201) alice test_context invited =
       \<lparr>calls = [GetUser ''auth0|abc123'',
                 Fetch (TOKEN_ENDPOINT test_secrets) (token_options test_secrets)],
        cb_calls = [Some (Error ''Failed to fetch token'')], world = invited\<rparr>"
proof -
  have n: "\<not> ok \<lparr>status = 401, json = Inr (JObj [(''access_token'', JStr ''t0k3n''),
                                            (''token_type'', JStr ''Bearer'')])\<rparr>"
    by (simp add: ok_def)
  have f: "truthy (prop_of (app_metadata_of
      (JObj [(''user_id'', JStr ''auth0|abc123''), (''app_metadata'', invited)]))
      ''isUserInvite'')"
    unfolding invited_props(2) by simp
  show ?thesis
    using n conjunct2
      [OF token_failure_stops_hook
        [OF test_secrets_context alice_userId test_ManagementClient
            test_getUser [OF invited_props(1)] f test_fetch_token n]]
    by simp
qed

text \<open>
  C5. When the invite flag is set, the token is obtained, the member request is made (the
  workspace id and the token convert to its strings) and the member endpoint answers with
  a status outside 200-299 (500, say), the callback receives the error and the hook makes
  no metadata-replace call: the host is left in the state it had after the member request,
  so the stored invite flag is still set.
\<close>

theorem member_failure_keeps_flag:
  assumes "sc = secrets (webtask ctx)" and "uid = ''auth0|'' @ user_id user"
    and "ManagementClient h (management_options sc) = None"
    and "getUser h uid w = (Inr fetched, w1)"
    and "truthy (prop_of (app_metadata_of fetched) ''isUserInvite'')"
    and "workspaceId = prop_of (app_metadata_of fetched) ''workspaceId''"
    and "fetch h (TOKEN_ENDPOINT sc) (token_options sc) w1 = (Inr tres, w2)"
    and "ok tres" and "json tres = Inr parsed" and "\<not> nullish parsed"
    and "token = prop_of parsed ''access_token''"
    and "ToString (Number_toString h) workspaceId = Inr workspaceText"
    and "ToString (Number_toString h) token = Inr tokenText"
    and "fetch h (member_url workspaceText) (member_options tokenText uid (email user)) w2
           = (Inr mres, w3)"
    and "\<not> ok mres"
  shows "createWorkspaceMember h user ctx w =
           \<lparr>calls = [GetUser uid,
                     Fetch (TOKEN_ENDPOINT sc) (token_options sc),
                     Fetch (member_url workspaceText)
                       (member_options tokenText uid (email user))],
            cb_calls = [Some (Error ''Failed to create workspace member'')], world = w3\<rparr>
         \<and> (\<forall>i p. UpdateAppMetadata i p \<notin> set (calls (createWorkspaceMember h user ctx w)))"
proof -
  have t: "getToken h sc ([GetUser uid], w1) =
      (Inr token, [GetUser uid, Fetch (TOKEN_ENDPOINT sc) (token_options sc)], w2)"
    using getToken_ok [of h sc "([GetUser uid], w1)" tres w2 parsed] assms(7-11) by simp
  have m: "createMember h token workspaceId uid (email user)
       ([GetUser uid, Fetch (TOKEN_ENDPOINT sc) (token_options sc)], w2) =
      (Inl (Error ''Failed to create workspace member''),
       [GetUser uid, Fetch (TOKEN_ENDPOINT sc) (token_options sc)] @
         [Fetch (member_url workspaceText) (member_options tokenText uid (email user))], w3)"
    using createMember_not_ok [OF assms(12,13), of uid "email user"
        "([GetUser uid, Fetch (TOKEN_ENDPOINT sc) (token_options sc)], w2)" mres w3]
      assms(14,15) by simp
  have "createWorkspaceMember h user ctx w =
           \<lparr>calls = [GetUser uid,
                     Fetch (TOKEN_ENDPOINT sc) (token_options sc),
                     Fetch (member_url workspaceText)
                       (member_options tokenText uid (email user))],
            cb_calls = [Some (Error ''Failed to create workspace member'')], world = w3\<rparr>"
    using hook_member_failure [of h ctx user w fetched w1 token
        "([GetUser uid, Fetch (TOKEN_ENDPOINT sc) (token_options sc)], w2)"
        "Error ''Failed to create workspace member''"
        "([GetUser uid, Fetch (TOKEN_ENDPOINT sc) (token_options sc)] @
         [Fetch (member_url workspaceText) (member_options tokenText uid (email user))], w3)"]
      t m assms(1-6)
    by simp
  then show ?thesis by simp
qed

text \<open>
  The run of C5 on the test host, whose member endpoint answers 500: the stored metadata
  is unchanged, with the flag still true.
\<close>

theorem member_failure_keeps_flag_witness:
  "\<not> ok \<lparr>status = 500, json = Inr (JObj [(''userId'', JStr ''auth0|abc123'')])\<rparr>
   \<and> createWorkspaceMember (test_host 200 500) alice test_context invited =
       \<lparr>calls = [GetUser ''auth0|abc123'',
                 Fetch (TOKEN_ENDPOINT test_secrets) (token_options test_secrets),
                 Fetch (member_url ''ws1'')
                   (member_options ''t0k3n'' ''auth0|abc123'' (email alice))],
        cb_calls = [Some (Error ''Failed to create workspace member'')], world = invited\<rparr>
   \<and> prop_of invited ''isUserInvite'' = JBool True"
proof -
  have n: "\<not> ok \<lparr>status = 500, json = Inr (JObj [(''userId'', JStr ''auth0|abc123'')])\<rparr>"
    by (simp add: ok_def)
  have f: "truthy (prop_of (app_metadata_of
      (JObj [(''user_id'', JStr ''auth0|abc123''), (''app_metadata'', invited)]))
      ''isUserInvite'')"
    unfolding invited_props(2) by simp
  have ws: "JStr ''ws1'' = prop_of (app_metadata_of
      (JObj [(''user_id'', JStr ''auth0|abc123''), (''app_metadata'', invited)])) ''workspaceId''"
    by (rule invited_props(3) [symmetric])
  have tok: "JStr ''t0k3n'' =
      prop_of (JObj [(''access_token'', JStr ''t0k3n''), (''token_type'', JStr ''Bearer'')])
        ''access_token''"
    by simp
  have run: "createWorkspaceMember (test_host 200 500) alice test_context invited =
       \<lparr>calls = [GetUser ''auth0|abc123'',
                 Fetch (TOKEN_ENDPOINT test_secrets) (token_options test_secrets),
                 Fetch (member_url ''ws1'')
                   (member_options ''t0k3n'' ''auth0|abc123'' (email alice))],
        cb_calls = [Some (Error ''Failed to create workspace member'')], world = invited\<rparr>"
    by (rule conjunct1
         [OF member_failure_keeps_flag
           [OF test_secrets_context alice_userId test_ManagementClient
               test_getUser [OF invited_props(1)] f ws test_fetch_token _ _ _ tok
               ToString_JStr ToString_JStr test_fetch_member n]])
       (simp_all add: ok_def nullish_def)
  show ?thesis
    using n run by (simp add: invited_def)
qed


section \<open>The identifier and the token\<close>

text \<open>
  C7. The identifier given to the management API, for the metadata read and for the
  metadata update alike, is \<^verbatim>\<open>"auth0|"\<close> followed by the user's raw id; the read is the
  hook's first call. For the user id \<^verbatim>\<open>"abc123"\<close> the identifier is
  \<^verbatim>\<open>"auth0|abc123"\<close>.
\<close>

theorem management_identifier:
  "(\<forall>c \<in> set (calls (createWorkspaceMember h user ctx w)).
       (\<forall>i. c = GetUser i \<longrightarrow> i = ''auth0|'' @ user_id user)
     \<and> (\<forall>i p. c = UpdateAppMetadata i p \<longrightarrow> i = ''auth0|'' @ user_id user))
   \<and> (ManagementClient h (management_options (secrets (webtask ctx))) = None \<longrightarrow>
         take 1 (calls (createWorkspaceMember h user ctx w))
           = [GetUser (''auth0|'' @ user_id user)])
   \<and> (user_id user = ''abc123'' \<longrightarrow>
         (\<forall>c \<in> set (calls (createWorkspaceMember h user ctx w)).
             (\<forall>i. c = GetUser i \<longrightarrow> i = ''auth0|abc123'')
           \<and> (\<forall>i p. c = UpdateAppMetadata i p \<longrightarrow> i = ''auth0|abc123'')))"
proof -
  have a: "\<forall>c \<in> set (calls (createWorkspaceMember h user ctx w)).
       (\<forall>i. c = GetUser i \<longrightarrow> i = ''auth0|'' @ user_id user)
     \<and> (\<forall>i p. c = UpdateAppMetadata i p \<longrightarrow> i = ''auth0|'' @ user_id user)"
    using hook_shape [where h = h and user = user and ctx = ctx and w = w] by (elim exE disjE conjE) simp_all
  have b: "ManagementClient h (management_options (secrets (webtask ctx))) = None \<longrightarrow>
         take 1 (calls (createWorkspaceMember h user ctx w))
           = [GetUser (''auth0|'' @ user_id user)]"
    using hook_shape [where h = h and user = user and ctx = ctx and w = w]
    by (elim exE disjE conjE) simp_all
  have c: "user_id user = ''abc123'' \<longrightarrow>
         (\<forall>c \<in> set (calls (createWorkspaceMember h user ctx w)).
             (\<forall>i. c = GetUser i \<longrightarrow> i = ''auth0|abc123'')
           \<and> (\<forall>i p. c = UpdateAppMetadata i p \<longrightarrow> i = ''auth0|abc123''))"
  proof (intro impI)
    assume u: "user_id user = ''abc123''"
    have e: "''auth0|'' @ user_id user = ''auth0|abc123''"
      using u by simp
    show "\<forall>c \<in> set (calls (createWorkspaceMember h user ctx w)).
             (\<forall>i. c = GetUser i \<longrightarrow> i = ''auth0|abc123'')
           \<and> (\<forall>i p. c = UpdateAppMetadata i p \<longrightarrow> i = ''auth0|abc123'')"
      using a unfolding e .
  qed
  show ?thesis by (intro conjI) (rule a, rule b, rule c)
qed

text \<open>The run for the user \<^verbatim>\<open>abc123\<close>: the read and the update both name \<^verbatim>\<open>auth0|abc123\<close>.\<close>

theorem management_identifier_witness:
  "ManagementClient (test_host 200 201) (management_options (secrets (webtask test_context)))
     = None
   \<and> user_id alice = ''abc123''
   \<and> take 1 (calls (createWorkspaceMember (test_host 200 201) alice test_context invited))
       = [GetUser ''auth0|abc123'']
   \<and> GetUser ''auth0|abc123''
       \<in> set (calls (createWorkspaceMember (test_host 200 201) alice test_context invited))
   \<and> UpdateAppMetadata ''auth0|abc123''
         (JObj [(''isUserInvite'', JBool False), (''inviteMsg'', JStr '''')])
       \<in> set (calls (createWorkspaceMember (test_host 200 201) alice test_context invited))"
proof -
  have m: "ManagementClient (test_host 200 201)
      (management_options (secrets (webtask test_context))) = None"
    by (rule test_ManagementClient)
  have u: "user_id alice = ''abc123''"
    by (simp add: alice_def)
  have "take 1 (calls (createWorkspaceMember (test_host 200 201) alice test_context invited))
       = [GetUser (''auth0|'' @ user_id alice)]"
    by (rule mp [OF conjunct1 [OF conjunct2 [OF management_identifier]] m])
  then have t: "take 1 (calls (createWorkspaceMember (test_host 200 201) alice test_context
      invited)) = [GetUser ''auth0|abc123'']"
    by (simp add: u)
  have g: "GetUser ''auth0|abc123''
       \<in> set (calls (createWorkspaceMember (test_host 200 201) alice test_context invited))"
    unfolding test_run_success by simp
  have p: "UpdateAppMetadata ''auth0|abc123''
         (JObj [(''isUserInvite'', JBool False), (''inviteMsg'', JStr '''')])
       \<in> set (calls (createWorkspaceMember (test_host 200 201) alice test_context invited))"
    unfolding test_run_success by simp
  show ?thesis
    by (intro conjI) (rule m, rule u, rule t, rule g, rule p)
qed

text \<open>
  C8. When the token endpoint answers with a success status and a JSON body (a body that
  parses, to a value other than null), the token acquisition returns exactly the value of
  the body's \<^verbatim>\<open>access_token\<close> field.
\<close>

theorem getToken_returns_access_token:
  assumes "fetch h (TOKEN_ENDPOINT sc) (token_options sc) (snd s) = (Inr res, w')"
    and "ok res" and "json res = Inr parsed" and "\<not> nullish parsed"
  shows "fst (getToken h sc s) = Inr (prop_of parsed ''access_token'')
         \<and> (\<forall>fs token. parsed = JObj fs \<and> map_of fs ''access_token'' = Some token
               \<longrightarrow> fst (getToken h sc s) = Inr token)"
  using getToken_ok [OF assms] by auto

text \<open>The token of the test host's token endpoint.\<close>

theorem getToken_returns_access_token_witness:
  "ok \<lparr>status = 200, json = Inr (JObj [(''access_token'', JStr ''t0k3n''),
                                          (''token_type'', JStr ''Bearer'')])\<rparr>
   \<and> fst (getToken (test_host 200 201) test_secrets ([], invited)) = Inr (JStr ''t0k3n'')"
proof -
  have o: "ok \<lparr>status = 200, json = Inr (JObj [(''access_token'', JStr ''t0k3n''),
                                          (''token_type'', JStr ''Bearer'')])\<rparr>"
    by (simp add: ok_def)
  have "fst (getToken (test_host 200 201) test_secrets ([], invited)) =
      Inr (prop_of (JObj [(''access_token'', JStr ''t0k3n''), (''token_type'', JStr ''Bearer'')])
             ''access_token'')"
    by (rule conjunct1 [OF getToken_returns_access_token [OF test_fetch_token o]])
       (simp_all add: nullish_def)
  with o show ?thesis by simp
qed


section \<open>The invite flag: absent metadata and truthiness\<close>

text \<open>
  C9. For a user whose management record has no \<^verbatim>\<open>app_metadata\<close> field at all, the hook
  raises no error: the missing metadata defaults to the empty object, and the hook takes
  the branch that does nothing (the metadata read is its only call and the callback
  receives no error), exactly as it does for a record whose metadata is an object without
  an invite flag.
\<close>

theorem missing_app_metadata_is_noop:
  assumes "uid = ''auth0|'' @ user_id user"
    and "ManagementClient h (management_options (secrets (webtask ctx))) = None"
    and "getUser h uid w = (Inr (JObj fs), w1)"
    and "map_of fs ''app_metadata'' = None"
    and "ManagementClient h' (management_options (secrets (webtask ctx))) = None"
    and "getUser h' uid w' = (Inr (JObj fs'), w1')"
    and "map_of fs' ''app_metadata'' = Some (JObj ms)"
    and "map_of ms ''isUserInvite'' = None"
  shows "createWorkspaceMember h user ctx w =
           \<lparr>calls = [GetUser uid], cb_calls = [], world = w1\<rparr>
       \<and> createWorkspaceMember h' user ctx w' =
           \<lparr>calls = [GetUser uid], cb_calls = [], world = w1'\<rparr>"
proof -
  have a: "\<not> truthy (prop_of (app_metadata_of (JObj fs)) ''isUserInvite'')"
    using assms(4) by (simp add: with_default_def)
  have b: "\<not> truthy (prop_of (app_metadata_of (JObj fs')) ''isUserInvite'')"
    using assms(7,8) by (simp add: with_default_def)
  have 1: "createWorkspaceMember h user ctx w =
           \<lparr>calls = [GetUser uid], cb_calls = [], world = w1\<rparr>"
    unfolding assms(1)
    by (rule hook_noop [OF assms(2) assms(3) [unfolded assms(1)] _ _ a])
       (simp_all add: nullish_def assms(4))
  have 2: "createWorkspaceMember h' user ctx w' =
           \<lparr>calls = [GetUser uid], cb_calls = [], world = w1'\<rparr>"
    unfolding assms(1)
    by (rule hook_noop [OF assms(5) assms(6) [unfolded assms(1)] _ _ b])
       (simp_all add: nullish_def assms(7))
  show ?thesis by (intro conjI) (rule 1, rule 2)
qed

text \<open>
  The runs of C9 on the test host: a user record without the field, and one whose metadata
  has a workspace id and no flag.
\<close>

theorem missing_app_metadata_is_noop_witness:
  "map_of [(''user_id'', JStr ''auth0|abc123'')] ''app_metadata'' = None
   \<and> createWorkspaceMember (test_host 200 201) alice test_context JUndefined =
       \<lparr>calls = [GetUser ''auth0|abc123''], cb_calls = [], world = JUndefined\<rparr>
   \<and> createWorkspaceMember (test_host 200 201) alice test_context no_flag =
       \<lparr>calls = [GetUser ''auth0|abc123''], cb_calls = [], world = no_flag\<rparr>"
proof -
  have a: "map_of [(''user_id'', JStr ''auth0|abc123'')] ''app_metadata'' = None"
    by simp
  have n: "no_flag \<noteq> JUndefined"
    by (simp add: no_flag_def)
  have b: "map_of [(''user_id'', JStr ''auth0|abc123''), (''app_metadata'', no_flag)]
      ''app_metadata'' = Some (JObj [(''workspaceId'', JStr ''ws1'')])"
    by (simp add: no_flag_def)
  have c: "map_of [(''workspaceId'', JStr ''ws1'')] ''isUserInvite'' = None"
    by simp
  show ?thesis
    using a
      missing_app_metadata_is_noop
        [OF alice_userId test_ManagementClient test_getUser_bare a
            test_ManagementClient test_getUser [OF n] b c]
    by simp
qed

text \<open>
  C10. The check of the invite flag is JavaScript truthiness, not equality with the boolean
  true. For every truthy value of \<^verbatim>\<open>isUserInvite\<close> (the number 1 and the string
  \<^verbatim>\<open>"false"\<close> among them) the provisioning is started: the token fetch is the second
  call, and when every call is made and succeeds (the workspace id and the token convert
  to the strings of the member request) the member creation and the metadata replacement
  follow. For every falsy value (false, 0, the empty string, null, undefined) it is
  skipped: the metadata read is the only call.
\<close>

theorem invite_flag_truthiness:
  assumes "sc = secrets (webtask ctx)" and "uid = ''auth0|'' @ user_id user"
    and "ManagementClient h (management_options sc) = None"
    and "getUser h uid w = (Inr fetched, w1)"
    and "\<not> nullish fetched" and "prop_of fetched ''app_metadata'' \<noteq> JNull"
    and "flag = prop_of (app_metadata_of fetched) ''isUserInvite''"
    and "workspaceId = prop_of (app_metadata_of fetched) ''workspaceId''"
  shows
    "(truthy flag \<longrightarrow>
        take 2 (calls (createWorkspaceMember h user ctx w)) =
          [GetUser uid, Fetch (TOKEN_ENDPOINT sc) (token_options sc)]
      \<and> (\<forall>tres w2 parsed workspaceText tokenText mres w3 member w4.
            fetch h (TOKEN_ENDPOINT sc) (token_options sc) w1 = (Inr tres, w2) \<longrightarrow>
            ok tres \<longrightarrow> json tres = Inr parsed \<longrightarrow> \<not> nullish parsed \<longrightarrow>
            ToString (Number_toString h) workspaceId = Inr workspaceText \<longrightarrow>
            ToString (Number_toString h) (prop_of parsed ''access_token'') = Inr tokenText \<longrightarrow>
            fetch h (member_url workspaceText)
              (member_options tokenText uid (email user)) w2 = (Inr mres, w3) \<longrightarrow>
            ok mres \<longrightarrow> json mres = Inr member \<longrightarrow>
            updateAppMetadata h uid
              (JObj [(''isUserInvite'', JBool False), (''inviteMsg'', JStr '''')]) w3
              = (None, w4) \<longrightarrow>
            createWorkspaceMember h user ctx w =
              \<lparr>calls = [GetUser uid,
                        Fetch (TOKEN_ENDPOINT sc) (token_options sc),
                        Fetch (member_url workspaceText)
                          (member_options tokenText uid (email user)),
                        UpdateAppMetadata uid
                          (JObj [(''isUserInvite'', JBool False), (''inviteMsg'', JStr '''')])],
               cb_calls = [None], world = w4\<rparr>))
   \<and> (\<not> truthy flag \<longrightarrow>
        createWorkspaceMember h user ctx w =
          \<lparr>calls = [GetUser uid], cb_calls = [], world = w1\<rparr>)
   \<and> truthy (JBool True) \<and> truthy (JNum (Finite 1)) \<and> truthy (JStr ''false'')
   \<and> \<not> truthy (JBool False) \<and> \<not> truthy (JNum (Finite 0)) \<and> \<not> truthy (JStr '''')
   \<and> \<not> truthy JNull \<and> \<not> truthy JUndefined"
proof -
  have t: "\<And>s x s2. getToken h (secrets (webtask ctx)) s = (x, s2) \<Longrightarrow>
      fst s2 = fst s @ [Fetch (TOKEN_ENDPOINT (secrets (webtask ctx)))
                           (token_options (secrets (webtask ctx)))]"
    using getToken_state [of h "secrets (webtask ctx)"] by (metis fst_conv snd_conv)
  have 1: "truthy flag \<Longrightarrow> take 2 (calls (createWorkspaceMember h user ctx w)) =
          [GetUser uid, Fetch (TOKEN_ENDPOINT sc) (token_options sc)]"
  proof -
    assume f: "truthy flag"
    show ?thesis
      unfolding hook_invite [OF assms(3) [unfolded assms(1)] assms(4) [unfolded assms(2)]
          f [unfolded assms(7)]] assms(1,2)
      by (auto simp: catch_def split: prod.splits sum.splits option.splits
            dest!: t createMember_trace_Inr createMember_trace_Inl)
  qed
  have 2: "truthy flag \<Longrightarrow>
      fetch h (TOKEN_ENDPOINT sc) (token_options sc) w1 = (Inr tres, w2) \<Longrightarrow>
      ok tres \<Longrightarrow> json tres = Inr parsed \<Longrightarrow> \<not> nullish parsed \<Longrightarrow>
      ToString (Number_toString h) workspaceId = Inr workspaceText \<Longrightarrow>
      ToString (Number_toString h) (prop_of parsed ''access_token'') = Inr tokenText \<Longrightarrow>
      fetch h (member_url workspaceText)
        (member_options tokenText uid (email user)) w2 = (Inr mres, w3) \<Longrightarrow>
      ok mres \<Longrightarrow> json mres = Inr member \<Longrightarrow>
      updateAppMetadata h uid
        (JObj [(''isUserInvite'', JBool False), (''inviteMsg'', JStr '''')]) w3
        = (None, w4) \<Longrightarrow>
      createWorkspaceMember h user ctx w =
        \<lparr>calls = [GetUser uid,
                  Fetch (TOKEN_ENDPOINT sc) (token_options sc),
                  Fetch (member_url workspaceText)
                    (member_options tokenText uid (email user)),
                  UpdateAppMetadata uid
                    (JObj [(''isUserInvite'', JBool False), (''inviteMsg'', JStr '''')])],
         cb_calls = [None], world = w4\<rparr>"
    for tres w2 parsed workspaceText tokenText mres w3 member w4
    using hook_success [of h ctx user w fetched w1 tres w2 parsed workspaceText tokenText
        mres w3 member w4] assms
    by simp
  have 3: "\<not> truthy flag \<Longrightarrow> createWorkspaceMember h user ctx w =
          \<lparr>calls = [GetUser uid], cb_calls = [], world = w1\<rparr>"
    using hook_noop [of h ctx user w fetched w1] assms by simp
  show ?thesis
    using 1 2 3 by (intro conjI impI allI) simp_all
qed

text \<open>
  The runs of C10 on the test host: with the flag 1 the whole provisioning runs, with the
  flag \<^verbatim>\<open>""\<close> nothing follows the metadata read.
\<close>

theorem invite_flag_truthiness_witness:
  "truthy (JNum (Finite 1))
   \<and> createWorkspaceMember (test_host 200 201) alice test_context invited_by_number =
       \<lparr>calls = [GetUser ''auth0|abc123'',
                 Fetch (TOKEN_ENDPOINT test_secrets) (token_options test_secrets),
                 Fetch (member_url ''ws1'')
                   (member_options ''t0k3n'' ''auth0|abc123'' (email alice)),
                 UpdateAppMetadata ''auth0|abc123''
                   (JObj [(''isUserInvite'', JBool False), (''inviteMsg'', JStr '''')])],
        cb_calls = [None],
        world = merge_metadata invited_by_number
                  (JObj [(''isUserInvite'', JBool False), (''inviteMsg'', JStr '''')])\<rparr>
   \<and> \<not> truthy (JStr '''')
   \<and> createWorkspaceMember (test_host 200 201) alice test_context invited_by_empty_string =
       \<lparr>calls = [GetUser ''auth0|abc123''], cb_calls = [],
        world = invited_by_empty_string\<rparr>"
proof -
  have t1: "truthy (JNum (Finite 1))" by simp
  have t0: "\<not> truthy (JStr '''')" by simp
  have nn: "\<not> nullish (JObj fs)" for fs
    by (simp add: nullish_def)
  have o1: "ok \<lparr>status = 200, json = Inr v\<rparr>" for v
    by (simp add: ok_def)
  have o2: "ok \<lparr>status = 201, json = Inr v\<rparr>" for v
    by (simp add: ok_def)
  have j: "json \<lparr>status = n, json = Inr v\<rparr> = Inr v" for n v
    by simp
  have tk: "ToString nts (prop_of (JObj [(''access_token'', JStr ''t0k3n''),
      (''token_type'', JStr ''Bearer'')]) ''access_token'') = Inr ''t0k3n''" for nts
    by simp
  note T1 = invite_flag_truthiness
    [OF test_secrets_context alice_userId test_ManagementClient
        test_getUser [OF invited_by_number_props(1)] nn invited_by_number_props(4)
        invited_by_number_props(2) invited_by_number_props(3)]
  note S1 = conjunct2 [OF mp [OF conjunct1 [OF T1] t1], rule_format]
  have run1: "createWorkspaceMember (test_host 200 201) alice test_context invited_by_number =
       \<lparr>calls = [GetUser ''auth0|abc123'',
                 Fetch (TOKEN_ENDPOINT test_secrets) (token_options test_secrets),
                 Fetch (member_url ''ws1'')
                   (member_options ''t0k3n'' ''auth0|abc123'' (email alice)),
                 UpdateAppMetadata ''auth0|abc123''
                   (JObj [(''isUserInvite'', JBool False), (''inviteMsg'', JStr '''')])],
        cb_calls = [None],
        world = merge_metadata invited_by_number
                  (JObj [(''isUserInvite'', JBool False), (''inviteMsg'', JStr '''')])\<rparr>"
    by (rule S1 [OF test_fetch_token o1 j nn ToString_JStr tk test_fetch_member o2 j
                    test_update])
  note T0 = invite_flag_truthiness
    [OF test_secrets_context alice_userId test_ManagementClient
        test_getUser [OF invited_by_empty_string_props(1)] nn invited_by_empty_string_props(4)
        invited_by_empty_string_props(2) invited_by_empty_string_props(3)]
  have run0: "createWorkspaceMember (test_host 200 201) alice test_context
      invited_by_empty_string =
       \<lparr>calls = [GetUser ''auth0|abc123''], cb_calls = [],
        world = invited_by_empty_string\<rparr>"
    by (rule mp [OF conjunct1 [OF conjunct2 [OF T0]] t0])
  show ?thesis
    by (intro conjI) (rule t1, rule run1, rule t0, rule run0)
qed


section \<open>Errors\<close>

text \<open>
  C6. Every error raised by a step is caught at the top level of the hook, ends the
  invocation there, and is the argument of the completion callback: the constructor of the
  client throwing, the metadata read rejecting or resolving to something that cannot be
  destructured, the token acquisition failing, the member creation failing (in the string
  conversion of the workspace id or of the token, before any request, or in the request),
  the metadata update rejecting. In each case the calls made are those up to the failing
  step, and the callback is invoked with that error and not without one. The calls of every
  run are an initial part of the sequence metadata read, token fetch, member creation,
  metadata update, so no step is made twice.
\<close>

theorem errors_reach_callback:
  assumes "sc = secrets (webtask ctx)" and "uid = ''auth0|'' @ user_id user"
  shows
    "(\<forall>e. ManagementClient h (management_options sc) = Some e \<longrightarrow>
        createWorkspaceMember h user ctx w = \<lparr>calls = [], cb_calls = [Some e], world = w\<rparr>)
   \<and> (\<forall>e w1. ManagementClient h (management_options sc) = None \<longrightarrow>
        getUser h uid w = (Inl e, w1) \<longrightarrow>
        createWorkspaceMember h user ctx w =
          \<lparr>calls = [GetUser uid], cb_calls = [Some e], world = w1\<rparr>)
   \<and> (\<forall>fetched w1. ManagementClient h (management_options sc) = None \<longrightarrow>
        getUser h uid w = (Inr fetched, w1) \<longrightarrow>
        nullish fetched \<or> prop_of fetched ''app_metadata'' = JNull \<longrightarrow>
        createWorkspaceMember h user ctx w =
          \<lparr>calls = [GetUser uid], cb_calls = [Some TypeError], world = w1\<rparr>)
   \<and> (\<forall>fetched w1 e s2. ManagementClient h (management_options sc) = None \<longrightarrow>
        getUser h uid w = (Inr fetched, w1) \<longrightarrow>
        truthy (prop_of (app_metadata_of fetched) ''isUserInvite'') \<longrightarrow>
        getToken h sc ([GetUser uid], w1) = (Inl e, s2) \<longrightarrow>
        createWorkspaceMember h user ctx w =
          \<lparr>calls = [GetUser uid, Fetch (TOKEN_ENDPOINT sc) (token_options sc)],
           cb_calls = [Some e], world = snd s2\<rparr>)
   \<and> (\<forall>fetched w1 token s2 e s3. ManagementClient h (management_options sc) = None \<longrightarrow>
        getUser h uid w = (Inr fetched, w1) \<longrightarrow>
        truthy (prop_of (app_metadata_of fetched) ''isUserInvite'') \<longrightarrow>
        getToken h sc ([GetUser uid], w1) = (Inr token, s2) \<longrightarrow>
        createMember h token (prop_of (app_metadata_of fetched) ''workspaceId'') uid
          (email user) s2 = (Inl e, s3) \<longrightarrow>
        createWorkspaceMember h user ctx w =
          \<lparr>calls = fst s3, cb_calls = [Some e], world = snd s3\<rparr>)
   \<and> (\<forall>fetched w1 token s2 e. ManagementClient h (management_options sc) = None \<longrightarrow>
        getUser h uid w = (Inr fetched, w1) \<longrightarrow>
        truthy (prop_of (app_metadata_of fetched) ''isUserInvite'') \<longrightarrow>
        getToken h sc ([GetUser uid], w1) = (Inr token, s2) \<longrightarrow>
        ToString (Number_toString h) (prop_of (app_metadata_of fetched) ''workspaceId'')
          = Inl e
        \<or> (\<exists>wt. ToString (Number_toString h)
                   (prop_of (app_metadata_of fetched) ''workspaceId'') = Inr wt)
          \<and> ToString (Number_toString h) token = Inl e \<longrightarrow>
        createWorkspaceMember h user ctx w =
          \<lparr>calls = [GetUser uid, Fetch (TOKEN_ENDPOINT sc) (token_options sc)],
           cb_calls = [Some e], world = snd s2\<rparr>)
   \<and> (\<forall>fetched w1 token s2 wt tt e s3.
        ManagementClient h (management_options sc) = None \<longrightarrow>
        getUser h uid w = (Inr fetched, w1) \<longrightarrow>
        truthy (prop_of (app_metadata_of fetched) ''isUserInvite'') \<longrightarrow>
        getToken h sc ([GetUser uid], w1) = (Inr token, s2) \<longrightarrow>
        ToString (Number_toString h) (prop_of (app_metadata_of fetched) ''workspaceId'')
          = Inr wt \<longrightarrow>
        ToString (Number_toString h) token = Inr tt \<longrightarrow>
        createMember h token (prop_of (app_metadata_of fetched) ''workspaceId'') uid
          (email user) s2 = (Inl e, s3) \<longrightarrow>
        createWorkspaceMember h user ctx w =
          \<lparr>calls = [GetUser uid, Fetch (TOKEN_ENDPOINT sc) (token_options sc),
                    Fetch (member_url wt) (member_options tt uid (email user))],
           cb_calls = [Some e], world = snd s3\<rparr>)
   \<and> (\<forall>fetched w1 token s2 wt tt member s3 e w4.
        ManagementClient h (management_options sc) = None \<longrightarrow>
        getUser h uid w = (Inr fetched, w1) \<longrightarrow>
        truthy (prop_of (app_metadata_of fetched) ''isUserInvite'') \<longrightarrow>
        getToken h sc ([GetUser uid], w1) = (Inr token, s2) \<longrightarrow>
        ToString (Number_toString h) (prop_of (app_metadata_of fetched) ''workspaceId'')
          = Inr wt \<longrightarrow>
        ToString (Number_toString h) token = Inr tt \<longrightarrow>
        createMember h token (prop_of (app_metadata_of fetched) ''workspaceId'') uid
          (email user) s2 = (Inr member, s3) \<longrightarrow>
        updateAppMetadata h uid
          (JObj [(''isUserInvite'', JBool False), (''inviteMsg'', JStr '''')]) (snd s3)
          = (Some e, w4) \<longrightarrow>
        createWorkspaceMember h user ctx w =
          \<lparr>calls = [GetUser uid, Fetch (TOKEN_ENDPOINT sc) (token_options sc),
                    Fetch (member_url wt) (member_options tt uid (email user)),
                    UpdateAppMetadata uid
                      (JObj [(''isUserInvite'', JBool False), (''inviteMsg'', JStr '''')])],
           cb_calls = [Some e], world = w4\<rparr>)
   \<and> (\<exists>url opts. prefix (calls (createWorkspaceMember h user ctx w))
          [GetUser uid, Fetch (TOKEN_ENDPOINT sc) (token_options sc), Fetch url opts,
           UpdateAppMetadata uid
             (JObj [(''isUserInvite'', JBool False), (''inviteMsg'', JStr '''')])])"
  unfolding assms
  apply (intro conjI allI impI)
  subgoal by (rule hook_early_failures(1))
  subgoal by (rule hook_early_failures(2))
  subgoal by (rule hook_early_failures(3))
  subgoal by (rule hook_token_failure)
  subgoal by (rule hook_member_failure)
  subgoal by (rule hook_conversion_failure)
  subgoal by (rule hook_member_request_failure)
  subgoal by (rule hook_update_failure)
  subgoal
    using hook_shape [where h = h and user = user and ctx = ctx and w = w]
    by (elim exE disjE conjE) simp_all
  done

text \<open>
  One run for each kind of failure: the constructor throws, the user lookup rejects, the
  stored metadata is null, the token endpoint answers 401, the token cannot be converted
  to a string, the workspace id cannot be converted to a string, the member endpoint
  answers 500, the metadata update rejects.
\<close>

theorem errors_reach_callback_witness:
  "createWorkspaceMember broken_client_host alice test_context invited =
     \<lparr>calls = [], cb_calls = [Some (LibraryError ''ArgumentError'')], world = invited\<rparr>
   \<and> createWorkspaceMember no_user_host alice test_context invited =
     \<lparr>calls = [GetUser ''auth0|abc123''], cb_calls = [Some (LibraryError ''Not Found'')],
      world = invited\<rparr>
   \<and> createWorkspaceMember (test_host 200 201) alice test_context JNull =
     \<lparr>calls = [GetUser ''auth0|abc123''], cb_calls = [Some TypeError], world = JNull\<rparr>
   \<and> createWorkspaceMember (test_host 401 201) alice test_context invited =
     \<lparr>calls = [GetUser ''auth0|abc123'',
               Fetch (TOKEN_ENDPOINT test_secrets) (token_options test_secrets)],
      cb_calls = [Some (Error ''Failed to fetch token'')], world = invited\<rparr>
   \<and> createWorkspaceMember odd_token_host alice test_context invited =
     \<lparr>calls = [GetUser ''auth0|abc123'',
               Fetch (TOKEN_ENDPOINT test_secrets) (token_options test_secrets)],
      cb_calls = [Some TypeError], world = invited\<rparr>
   \<and> createWorkspaceMember (test_host 200 201) alice test_context invited_bad_workspace =
     \<lparr>calls = [GetUser ''auth0|abc123'',
               Fetch (TOKEN_ENDPOINT test_secrets) (token_options test_secrets)],
      cb_calls = [Some TypeError], world = invited_bad_workspace\<rparr>
   \<and> createWorkspaceMember (test_host 200 500) alice test_context invited =
     \<lparr>calls = [GetUser ''auth0|abc123'',
               Fetch (TOKEN_ENDPOINT test_secrets) (token_options test_secrets),
               Fetch (member_url ''ws1'')
                 (member_options ''t0k3n'' ''auth0|abc123'' (email alice))],
      cb_calls = [Some (Error ''Failed to create workspace member'')], world = invited\<rparr>
   \<and> createWorkspaceMember readonly_host alice test_context invited =
     \<lparr>calls = [GetUser ''auth0|abc123'',
               Fetch (TOKEN_ENDPOINT test_secrets) (token_options test_secrets),
               Fetch (member_url ''ws1'')
                 (member_options ''t0k3n'' ''auth0|abc123'' (email alice)),
               UpdateAppMetadata ''auth0|abc123''
                 (JObj [(''isUserInvite'', JBool False), (''inviteMsg'', JStr '''')])],
      cb_calls = [Some (LibraryError ''Forbidden'')], world = invited\<rparr>"
proof -
  note T = errors_reach_callback [OF test_secrets_context alice_userId]
  have f: "truthy (prop_of (app_metadata_of
      (JObj [(''user_id'', JStr ''auth0|abc123''), (''app_metadata'', invited)]))
      ''isUserInvite'')"
    unfolding invited_props(2) by simp
  have ws: "prop_of (app_metadata_of
      (JObj [(''user_id'', JStr ''auth0|abc123''), (''app_metadata'', invited)])) ''workspaceId''
      = JStr ''ws1''"
    by (rule invited_props(3))
  have wt: "ToString nts (prop_of (app_metadata_of
      (JObj [(''user_id'', JStr ''auth0|abc123''), (''app_metadata'', invited)]))
      ''workspaceId'') = Inr ''ws1''" for nts
    unfolding ws by simp
  have 1: "createWorkspaceMember broken_client_host alice test_context invited =
     \<lparr>calls = [], cb_calls = [Some (LibraryError ''ArgumentError'')], world = invited\<rparr>"
    by (rule T [THEN conjunct1, rule_format, OF broken_client_host_runs])
  have 2: "createWorkspaceMember no_user_host alice test_context invited =
     \<lparr>calls = [GetUser ''auth0|abc123''], cb_calls = [Some (LibraryError ''Not Found'')],
      world = invited\<rparr>"
    by (rule T [THEN conjunct2, THEN conjunct1, rule_format, OF no_user_host_runs])
  have n: "JNull \<noteq> JUndefined" by simp
  have d: "nullish (JObj [(''user_id'', JStr ''auth0|abc123''), (''app_metadata'', JNull)])
      \<or> prop_of (JObj [(''user_id'', JStr ''auth0|abc123''), (''app_metadata'', JNull)])
           ''app_metadata'' = JNull"
    by simp
  have 3: "createWorkspaceMember (test_host 200 201) alice test_context JNull =
     \<lparr>calls = [GetUser ''auth0|abc123''], cb_calls = [Some TypeError], world = JNull\<rparr>"
    by (rule T [THEN conjunct2, THEN conjunct2, THEN conjunct1, rule_format,
                OF test_ManagementClient test_getUser [OF n] d])
  have 4: "createWorkspaceMember (test_host 401 201) alice test_context invited =
     \<lparr>calls = [GetUser ''auth0|abc123'',
               Fetch (TOKEN_ENDPOINT test_secrets) (token_options test_secrets)],
      cb_calls = [Some (Error ''Failed to fetch token'')], world = invited\<rparr>"
    using T [THEN conjunct2, THEN conjunct2, THEN conjunct2, THEN conjunct1, rule_format,
             OF test_ManagementClient test_getUser [OF invited_props(1)] f test_getToken_401]
    by simp
  have 5: "createWorkspaceMember odd_token_host alice test_context invited =
     \<lparr>calls = [GetUser ''auth0|abc123'',
               Fetch (TOKEN_ENDPOINT test_secrets) (token_options test_secrets)],
      cb_calls = [Some TypeError], world = invited\<rparr>"
    using T [THEN conjunct2, THEN conjunct2, THEN conjunct2, THEN conjunct2, THEN conjunct1,
             rule_format,
             OF odd_token_host_runs(1) odd_token_host_runs(2) [OF invited_props(1)] f
                odd_token_host_runs(3) odd_token_host_runs(4) [folded ws]]
    by simp
  have c: "ToString (Number_toString (test_host 200 201)) (prop_of (app_metadata_of
      (JObj [(''user_id'', JStr ''auth0|abc123''),
             (''app_metadata'', invited_bad_workspace)])) ''workspaceId'') = Inl TypeError
    \<or> (\<exists>wt. ToString (Number_toString (test_host 200 201)) (prop_of (app_metadata_of
      (JObj [(''user_id'', JStr ''auth0|abc123''),
             (''app_metadata'', invited_bad_workspace)])) ''workspaceId'') = Inr wt)
      \<and> ToString (Number_toString (test_host 200 201)) (JStr ''t0k3n'') = Inl TypeError"
    by (rule disjI1 [OF invited_bad_workspace_props(3)])
  have 6: "createWorkspaceMember (test_host 200 201) alice test_context invited_bad_workspace =
     \<lparr>calls = [GetUser ''auth0|abc123'',
               Fetch (TOKEN_ENDPOINT test_secrets) (token_options test_secrets)],
      cb_calls = [Some TypeError], world = invited_bad_workspace\<rparr>"
    using T [THEN conjunct2, THEN conjunct2, THEN conjunct2, THEN conjunct2, THEN conjunct2,
             THEN conjunct1, rule_format,
             OF test_ManagementClient test_getUser [OF invited_bad_workspace_props(1)]
                invited_bad_workspace_props(2) test_getToken_200 c]
    by simp
  have 7: "createWorkspaceMember (test_host 200 500) alice test_context invited =
     \<lparr>calls = [GetUser ''auth0|abc123'',
               Fetch (TOKEN_ENDPOINT test_secrets) (token_options test_secrets),
               Fetch (member_url ''ws1'')
                 (member_options ''t0k3n'' ''auth0|abc123'' (email alice))],
      cb_calls = [Some (Error ''Failed to create workspace member'')], world = invited\<rparr>"
    using T [THEN conjunct2, THEN conjunct2, THEN conjunct2, THEN conjunct2, THEN conjunct2,
             THEN conjunct2, THEN conjunct1, rule_format,
             OF test_ManagementClient test_getUser [OF invited_props(1)] f test_getToken_200
                wt ToString_JStr test_createMember_500 [folded ws]]
    by simp
  have 8: "createWorkspaceMember readonly_host alice test_context invited =
     \<lparr>calls = [GetUser ''auth0|abc123'',
               Fetch (TOKEN_ENDPOINT test_secrets) (token_options test_secrets),
               Fetch (member_url ''ws1'')
                 (member_options ''t0k3n'' ''auth0|abc123'' (email alice)),
               UpdateAppMetadata ''auth0|abc123''
                 (JObj [(''isUserInvite'', JBool False), (''inviteMsg'', JStr '''')])],
      cb_calls = [Some (LibraryError ''Forbidden'')], world = invited\<rparr>"
    using T [THEN conjunct2, THEN conjunct2, THEN conjunct2, THEN conjunct2, THEN conjunct2,
             THEN conjunct2, THEN conjunct2, THEN conjunct1, rule_format,
             OF readonly_host_runs(1) readonly_host_runs(2) [OF invited_props(1)] f
                test_getToken_readonly wt ToString_JStr test_createMember_readonly [folded ws]
                readonly_host_runs(3)]
    by simp
  show ?thesis
    by (intro conjI) (rule 1, rule 2, rule 3, rule 4, rule 5, rule 6, rule 7, rule 8)
qed

end
